theory Spec2Isabelle
  imports Complex_Main "HOL-Library.Log_Nat"
begin

section \<open>Python values the code works with\<close>

text \<open>
  Strings are lists of characters. The functions below that depend on the character
  set (upper and lower case, white space, \<open>repr\<close>) are those of Python on ASCII
  text, which is what the letters, identifiers and callback payloads of the program
  are made of. The text a generator sends is not restricted to ASCII; the program
  stores it as it is, except for the answer letter of a generated exercise, where
  the model takes the library's function as a parameter.
\<close>

definition lower_letters :: string where
  "lower_letters = ''abcdefghijklmnopqrstuvwxyz''"

definition upper_letters :: string where
  "upper_letters = ''ABCDEFGHIJKLMNOPQRSTUVWXYZ''"

definition upper_char :: "char \<Rightarrow> char" where
  "upper_char c = (case map_of (zip lower_letters upper_letters) c of Some u \<Rightarrow> u | None \<Rightarrow> c)"

definition lower_char :: "char \<Rightarrow> char" where
  "lower_char c = (case map_of (zip upper_letters lower_letters) c of Some l \<Rightarrow> l | None \<Rightarrow> c)"

text \<open>\<open>str.upper()\<close> and \<open>str.lower()\<close>.\<close>

definition py_upper :: "string \<Rightarrow> string" where
  "py_upper s = map upper_char s"

definition py_lower :: "string \<Rightarrow> string" where
  "py_lower s = map lower_char s"

text \<open>\<open>str.capitalize()\<close>: first character upper case, the rest lower case.\<close>

definition py_capitalize :: "string \<Rightarrow> string" where
  "py_capitalize s = (case s of [] \<Rightarrow> [] | c # cs \<Rightarrow> upper_char c # py_lower cs)"

text \<open>The characters \<open>str.strip()\<close> removes: tab, line feed, vertical tab, form feed,
  carriage return, the four separators 0x1C to 0x1F, and the space.\<close>

definition is_space :: "char \<Rightarrow> bool" where
  "is_space c = (c \<in> set [CHR 0x09, CHR 0x0A, CHR 0x0B, CHR 0x0C, CHR 0x0D,
                           CHR 0x1C, CHR 0x1D, CHR 0x1E, CHR 0x1F, CHR 0x20])"

definition py_strip :: "string \<Rightarrow> string" where
  "py_strip s = rev (dropWhile is_space (rev (dropWhile is_space s)))"

text \<open>\<open>k in text\<close> for two strings: \<open>k\<close> occurs in \<open>text\<close> as a contiguous block.\<close>

fun is_substring :: "string \<Rightarrow> string \<Rightarrow> bool" where
  "is_substring k [] = (k = [])"
| "is_substring k (c # cs) = (take (length k) (c # cs) = k \<or> is_substring k cs)"

text \<open>\<open>sep.join(parts)\<close>.\<close>

fun py_join :: "string \<Rightarrow> string list \<Rightarrow> string" where
  "py_join sep [] = []"
| "py_join sep [x] = x"
| "py_join sep (x # y # ys) = x @ sep @ py_join sep (y # ys)"

text \<open>\<open>s.split(sep)\<close> for a one-character separator: never the empty list.\<close>

fun py_split :: "char \<Rightarrow> string \<Rightarrow> string list" where
  "py_split sep [] = [[]]"
| "py_split sep (c # cs) =
     (if c = sep then [] # py_split sep cs
      else (case py_split sep cs of [] \<Rightarrow> [[c]] | p # ps \<Rightarrow> (c # p) # ps))"

text \<open>\<open>xs[i]\<close> on a list: a negative index counts from the end, and an index out of
  range raises \<open>IndexError\<close> (here \<open>None\<close>).\<close>

definition py_index :: "'a list \<Rightarrow> int \<Rightarrow> 'a option" where
  "py_index xs i =
     (if 0 \<le> i \<and> i < int (length xs) then Some (xs ! nat i)
      else if i < 0 \<and> - int (length xs) \<le> i then Some (xs ! nat (int (length xs) + i))
      else None)"

text \<open>Python's slice \<open>xs[-n:]\<close> for \<open>n > 0\<close>: the last \<open>n\<close> elements, all of them when
  the list is shorter.\<close>

definition slice_last :: "nat \<Rightarrow> 'a list \<Rightarrow> 'a list" where
  "slice_last n xs = drop (length xs - n) xs"

subsection \<open>Integers as text\<close>

definition digit_chars :: string where
  "digit_chars = ''0123456789''"

fun str_nat :: "nat \<Rightarrow> string" where
  "str_nat n = (if n < 10 then [digit_chars ! n]
                else str_nat (n div 10) @ [digit_chars ! (n mod 10)])"

declare str_nat.simps [simp del]

text \<open>\<open>str(i)\<close> for an integer, as the f-strings of the program render one.\<close>

definition str_int :: "int \<Rightarrow> string" where
  "str_int i = (if i < 0 then CHR ''-'' # str_nat (nat (- i)) else str_nat (nat i))"

definition is_digit :: "char \<Rightarrow> bool" where
  "is_digit c = (c \<in> set digit_chars)"

definition digit_value :: "char \<Rightarrow> nat" where
  "digit_value c =
     (case map_of (zip digit_chars [0, 1, 2, 3, 4, 5, 6, 7, 8, 9]) c of Some d \<Rightarrow> d | None \<Rightarrow> 0)"

fun double_underscore :: "string \<Rightarrow> bool" where
  "double_underscore (a # b # cs) = ((a = CHR ''_'' \<and> b = CHR ''_'') \<or> double_underscore (b # cs))"
| "double_underscore _ = False"

text \<open>The digits after the sign in \<open>int(s)\<close>: decimal digits, where single underscores
  may separate digits; anything else raises \<open>ValueError\<close> (here \<open>None\<close>).\<close>

definition parse_digits :: "string \<Rightarrow> nat option" where
  "parse_digits s =
     (if s = [] \<or> \<not> list_all (\<lambda>c. is_digit c \<or> c = CHR ''_'') s
         \<or> take 1 s = ''_'' \<or> take 1 (rev s) = ''_'' \<or> double_underscore s
      then None
      else Some (foldl (\<lambda>acc c. 10 * acc + digit_value c) 0 (filter is_digit s)))"

text \<open>\<open>int(s)\<close> for a string, base ten: surrounding white space is ignored and one
  sign may come first.\<close>

definition py_int :: "string \<Rightarrow> int option" where
  "py_int s =
     (case py_strip s of
        [] \<Rightarrow> None
      | c # cs \<Rightarrow>
          if c = CHR ''-'' then map_option (\<lambda>n. - int n) (parse_digits cs)
          else if c = CHR ''+'' then map_option int (parse_digits cs)
          else map_option int (parse_digits (c # cs)))"

subsection \<open>Floating-point numbers\<close>

text \<open>
  Python's \<open>float\<close> is an IEEE double. A double is a rational number here, and an
  operation on doubles is the exact operation followed by \<open>to_double\<close>, the rounding
  to the nearest number with a 53-bit mantissa, ties to the even mantissa. The
  quotients of counts and their products with 100 that the program computes are
  far from the range where doubles overflow or lose bits of the mantissa, so the
  exponent is not bounded.
\<close>

text \<open>Rounding to the nearest integer, ties to the even one.\<close>

definition round_half_even :: "rat \<Rightarrow> int" where
  "round_half_even y =
     (let n = \<lfloor>y\<rfloor>; d = y - of_int n
      in if d < 1 / 2 then n else if 1 / 2 < d then n + 1 else if even n then n else n + 1)"

text \<open>The exponent \<open>e\<close> with \<open>2^e \<le> x < 2^(e+1)\<close> of a positive rational, from the
  bit lengths of its numerator and denominator.\<close>

definition binade :: "rat \<Rightarrow> int" where
  "binade x =
     (let (a, b) = quotient_of x; k = bitlen a - bitlen b
      in if 2 powi k \<le> x then k else k - 1)"

definition to_double :: "rat \<Rightarrow> rat" where
  "to_double x =
     (if x = 0 then 0
      else let e = binade \<bar>x\<bar> - 52
           in of_int (round_half_even (x / 2 powi e)) * 2 powi e)"

text \<open>\<open>a / b\<close> for two integers (true division, rounded once) and \<open>x * y\<close> for a float
  and an integer that a double holds exactly.\<close>

definition float_div :: "int \<Rightarrow> int \<Rightarrow> rat" where
  "float_div a b = to_double (of_int a / of_int b)"

definition float_mul :: "rat \<Rightarrow> rat \<Rightarrow> rat" where
  "float_mul x y = to_double (x * y)"

subsection \<open>Values read by \<open>json.loads\<close>\<close>

text \<open>
  A parsed JSON document. A floating-point number is kept as the text Python prints
  for it, the only thing the program does with one being \<open>str()\<close>; an object is the
  list of its items in order, with distinct keys as \<open>json.loads\<close> builds a \<open>dict\<close>.
\<close>

datatype json =
    JNull
  | JBool bool
  | JInt int
  | JFloat string
  | JStr string
  | JArr "json list"
  | JObj "(string \<times> json) list"

definition hex_chars :: string where
  "hex_chars = ''0123456789abcdef''"

text \<open>\<open>repr\<close> of a string: single quotes unless the string has a single quote and no
  double quote; the quote, the backslash and control characters are escaped.\<close>

definition escape_char :: "char \<Rightarrow> char \<Rightarrow> string" where
  "escape_char quote c =
     (if c = quote \<or> c = CHR 0x5C then [CHR 0x5C, c]
      else if c = CHR 0x09 then [CHR 0x5C, CHR ''t'']
      else if c = CHR 0x0A then [CHR 0x5C, CHR ''n'']
      else if c = CHR 0x0D then [CHR 0x5C, CHR ''r'']
      else if (of_char c :: nat) < 32 \<or> c = CHR 0x7F
        then [CHR 0x5C, CHR ''x'', hex_chars ! ((of_char c :: nat) div 16),
              hex_chars ! ((of_char c :: nat) mod 16)]
      else [c])"

definition repr_str :: "string \<Rightarrow> string" where
  "repr_str s =
     (let quote = (if CHR 0x27 \<in> set s \<and> CHR 0x22 \<notin> set s then CHR 0x22 else CHR 0x27)
      in quote # concat (map (escape_char quote) s) @ [quote])"

fun py_repr :: "json \<Rightarrow> string" where
  "py_repr JNull = ''None''"
| "py_repr (JBool b) = (if b then ''True'' else ''False'')"
| "py_repr (JInt i) = str_int i"
| "py_repr (JFloat s) = s"
| "py_repr (JStr s) = repr_str s"
| "py_repr (JArr xs) = ''['' @ py_join '', '' (map py_repr xs) @ '']''"
| "py_repr (JObj kvs) =
     ''{'' @ py_join '', '' (map (\<lambda>(k, v). repr_str k @ '': '' @ py_repr v) kvs) @ ''}''"

text \<open>\<open>str(v)\<close>: a string is itself, anything else prints as its \<open>repr\<close>.\<close>

definition py_str :: "json \<Rightarrow> string" where
  "py_str v = (case v of JStr s \<Rightarrow> s | _ \<Rightarrow> py_repr v)"

text \<open>\<open>d.get(k)\<close> on a parsed object.\<close>

definition dict_get :: "(string \<times> json) list \<Rightarrow> string \<Rightarrow> json option" where
  "dict_get d k = map_of d k"

section \<open>Exercise manager (src/exercise_manager.py)\<close>

text \<open>
  An \<open>Exercise\<close> object. The question, the options and the explanation of a generated
  exercise are whatever JSON values the generator sent (the code checks only that
  the options form a list of four); \<open>created_at\<close>, a time stamp nothing reads, is left
  out.
\<close>

record exercise =
  exercise_id :: string
  subject :: string
  question :: json
  options :: "json list"
  correct_answer :: string
  explanation :: json
  difficulty :: string

text \<open>The constructor, with the default \<open>difficulty = "medium"\<close> every call site uses.\<close>

definition new_exercise ::
  "string \<Rightarrow> string \<Rightarrow> json \<Rightarrow> json list \<Rightarrow> string \<Rightarrow> json \<Rightarrow> exercise" where
  "new_exercise eid subj q opts ca expl =
     \<lparr>exercise_id = eid, subject = subj, question = q, options = opts,
      correct_answer = ca, explanation = expl, difficulty = ''medium''\<rparr>"

subsection \<open>The built-in fallback table\<close>

definition vocabulary_fallback :: "string \<Rightarrow> exercise list" where
  "vocabulary_fallback subj =
     [
      new_exercise (subj @ ''_fallback_1'') subj
        (JStr (''Choose the correct phrasal verb:'' @ [CHR 0x0A] @ ''I need to ___ my notes before the exam.''))
        [JStr ''look up'', JStr ''look after'', JStr ''look into'', JStr ''look for'']
        ''A''
        (JStr ([CHR 0x27] @ ''Look up'' @ [CHR 0x27] @ '' means to search for information, which fits the context of studying notes.'')),
      new_exercise (subj @ ''_fallback_2'') subj
        (JStr (''Complete the collocation:'' @ [CHR 0x0A] @ ''Make a ___ about your future plans.''))
        [JStr ''decision'', JStr ''solution'', JStr ''problem'', JStr ''opinion'']
        ''A''
        (JStr ([CHR 0x27] @ ''Make a decision'' @ [CHR 0x27] @ '' is the correct collocation in English.'')),
      new_exercise (subj @ ''_fallback_3'') subj
        (JStr (''Choose the correct word:'' @ [CHR 0x0A] @ ''The weather was so ___ that we had to cancel the picnic.''))
        [JStr ''terrible'', JStr ''terribly'', JStr ''terribleness'', JStr ''terrify'']
        ''A''
        (JStr ([CHR 0x27] @ ''Terrible'' @ [CHR 0x27] @ '' is an adjective that describes the weather.'')),
      new_exercise (subj @ ''_fallback_4'') subj
        (JStr (''Select the right synonym:'' @ [CHR 0x0A] @ ''The movie was very ___ and kept us interested.''))
        [JStr ''boring'', JStr ''entertaining'', JStr ''difficult'', JStr ''expensive'']
        ''B''
        (JStr ([CHR 0x27] @ ''Entertaining'' @ [CHR 0x27] @ '' means interesting and enjoyable, which fits the context.'')),
      new_exercise (subj @ ''_fallback_5'') subj
        (JStr (''Choose the correct word form:'' @ [CHR 0x0A] @ ''She has a great ___ for languages.''))
        [JStr ''ability'', JStr ''able'', JStr ''ably'', JStr ''enable'']
        ''A''
        (JStr ([CHR 0x27] @ ''Ability'' @ [CHR 0x27] @ '' is a noun that means the power or skill to do something.''))
     ]"

definition grammar_fallback :: "string \<Rightarrow> exercise list" where
  "grammar_fallback subj =
     [
      new_exercise (subj @ ''_fallback_1'') subj
        (JStr (''Choose the correct tense:'' @ [CHR 0x0A] @ ''By this time next year, I ___ university.''))
        [JStr ''will finish'', JStr ''will have finished'', JStr ''finish'', JStr ''am finishing'']
        ''B''
        (JStr ([CHR 0x27] @ ''Will have finished'' @ [CHR 0x27] @ '' is the future perfect tense, used for actions completed by a specific time in the future.'')),
      new_exercise (subj @ ''_fallback_2'') subj
        (JStr (''Select the right conditional:'' @ [CHR 0x0A] @ ''If I ___ more time, I would travel the world.''))
        [JStr ''have'', JStr ''had'', JStr ''would have'', JStr ''have had'']
        ''B''
        (JStr (''This is a second conditional sentence, so we use '' @ [CHR 0x27] @ ''had'' @ [CHR 0x27] @ '' (past simple) in the if-clause.'')),
      new_exercise (subj @ ''_fallback_3'') subj
        (JStr (''Choose the correct article:'' @ [CHR 0x0A] @ ''___ sun rises in the east.''))
        [JStr ''A'', JStr ''An'', JStr ''The'', JStr ''No article'']
        ''C''
        (JStr ([CHR 0x27] @ ''The'' @ [CHR 0x27] @ '' is used with unique objects like the sun, moon, earth, etc.'')),
      new_exercise (subj @ ''_fallback_4'') subj
        (JStr (''Select the correct passive form:'' @ [CHR 0x0A] @ ''The book ___ by many students last year.''))
        [JStr ''was read'', JStr ''was reading'', JStr ''read'', JStr ''has read'']
        ''A''
        (JStr ([CHR 0x27] @ ''Was read'' @ [CHR 0x27] @ '' is the past simple passive form, indicating the book was the object of the action.'')),
      new_exercise (subj @ ''_fallback_5'') subj
        (JStr (''Choose the right modal verb:'' @ [CHR 0x0A] @ ''You ___ study harder if you want to pass the exam.''))
        [JStr ''can'', JStr ''must'', JStr ''should'', JStr ''would'']
        ''C''
        (JStr ([CHR 0x27] @ ''Should'' @ [CHR 0x27] @ '' is used to give advice or make recommendations.''))
     ]"

text \<open>\<open>_get_fallback_exercises\<close>: the table of the subject, and the empty list for any
  other subject.\<close>

definition get_fallback_exercises :: "string \<Rightarrow> exercise list" where
  "get_fallback_exercises subj =
     (if subj = ''vocabulary'' then vocabulary_fallback subj
      else if subj = ''grammar'' then grammar_fallback subj
      else [])"

subsection \<open>Generation\<close>

text \<open>
  What the generator call and the JSON search of \<open>_generate_exercises\<close> come to. The
  remote call, \<open>json.loads\<close> and the regular expressions are library code; the model
  starts from their outcome:
  \<^item> \<open>CallRaised\<close>: building the user context or the call raises (caught by the outer
    \<open>except\<close>);
  \<^item> \<open>EmptyResponse\<close>: the response is \<open>None\<close>, empty or white space only;
  \<^item> \<open>NoJson\<close>: the response does not parse, and no bracketed array in it (after
    removing a code fence) parses either; the generator's own error messages end here;
  \<^item> \<open>Parsed v\<close>: the response, or the bracketed array found in it, parses to \<open>v\<close>.
\<close>

datatype llm_outcome = CallRaised | EmptyResponse | NoJson | Parsed json

text \<open>The list of exercise data in the parsed value: an object whose \<open>exercises\<close> key
  holds a list, or a list; any other shape is an error.\<close>

definition exercises_list_of :: "json \<Rightarrow> json list option" where
  "exercises_list_of v =
     (case v of
        JObj d \<Rightarrow> (case dict_get d ''exercises'' of Some (JArr xs) \<Rightarrow> Some xs | _ \<Rightarrow> None)
      | JArr xs \<Rightarrow> Some xs
      | _ \<Rightarrow> None)"

text \<open>\<open>re.sub(r"[^A-D]", "", s)[:1]\<close>.\<close>

definition normalize_answer :: "string \<Rightarrow> string" where
  "normalize_answer s = take 1 (filter (\<lambda>c. c \<in> set ''ABCD'') s)"

text \<open>
  \<open>str(v).strip().upper()\<close> for a value \<open>v\<close> whose strings are ASCII. On other text
  Python strips and upper-cases by the Unicode tables (the upper case of U+1E9A
  starts with \<open>A\<close>, and \<open>str\<close> of a list escapes U+00A0 as \<open>\xa0\<close>), which are not
  part of the model: the generation below takes the function computing this text
  as its argument \<open>answer_text\<close>, and what is proved of it holds for every such
  function; \<open>ascii_answer_text\<close> is the one used on the concrete inputs.
\<close>

definition ascii_answer_text :: "json \<Rightarrow> string" where
  "ascii_answer_text v = py_upper (py_strip (py_str v))"

text \<open>
  The body of the loop over the list, for the element \<open>data\<close> at position \<open>i\<close>: the
  exercise built from it, or \<open>None\<close> when the iteration ends in \<open>continue\<close>.
  The loop over \<open>required_fields\<close> only logs (its \<open>continue\<close> belongs to the inner
  loop), so a missing field shows later: \<open>data["question"]\<close> and \<open>data["explanation"]\<close>
  raise \<open>KeyError\<close>, which the \<open>except\<close> of the iteration turns into \<open>continue\<close>. An
  element that is not an object raises at \<open>field not in data\<close> (null, booleans,
  numbers) or at \<open>data.get\<close> (strings, lists) and is skipped the same way.
\<close>

fun make_exercise ::
  "(json \<Rightarrow> string) \<Rightarrow> string \<Rightarrow> int \<Rightarrow> nat \<Rightarrow> json \<Rightarrow> exercise option" where
  "make_exercise answer_text subj user_id i (JObj data) =
     (let opts = (case dict_get data ''options'' of Some (JArr os) \<Rightarrow> os | _ \<Rightarrow> [])
      in if length opts \<noteq> 4 then None
         else
           let correct_answer_raw =
                 answer_text
                   (case dict_get data ''correct_answer'' of None \<Rightarrow> JStr [] | Some v \<Rightarrow> v);
               normalized_correct = normalize_answer correct_answer_raw
           in if normalized_correct \<notin> set [''A'', ''B'', ''C'', ''D''] then None
              else
                (case dict_get data ''question'' of
                   None \<Rightarrow> None
                 | Some q \<Rightarrow>
                     (case dict_get data ''explanation'' of
                        None \<Rightarrow> None
                      | Some expl \<Rightarrow>
                          Some (new_exercise
                                  (subj @ ''_'' @ str_int user_id @ ''_'' @ str_int (int i))
                                  subj q opts normalized_correct expl))))"
| "make_exercise answer_text subj user_id i _ = None"

text \<open>The loop \<open>for i, data in enumerate(exercises_list)\<close>, from position \<open>i\<close> on.\<close>

fun collect_exercises ::
  "(json \<Rightarrow> string) \<Rightarrow> string \<Rightarrow> int \<Rightarrow> nat \<Rightarrow> json list \<Rightarrow> exercise list" where
  "collect_exercises answer_text subj user_id i [] = []"
| "collect_exercises answer_text subj user_id i (data # rest) =
     (case make_exercise answer_text subj user_id i data of
        None \<Rightarrow> collect_exercises answer_text subj user_id (Suc i) rest
      | Some e \<Rightarrow> e # collect_exercises answer_text subj user_id (Suc i) rest)"

text \<open>\<open>_generate_exercises\<close>: it returns the exercises built when there is at least one,
  and the fallback table in every other case.\<close>

definition generate_exercises ::
  "(json \<Rightarrow> string) \<Rightarrow> string \<Rightarrow> int \<Rightarrow> llm_outcome \<Rightarrow> exercise list" where
  "generate_exercises answer_text subj user_id response =
     (case response of
        CallRaised \<Rightarrow> get_fallback_exercises subj
      | EmptyResponse \<Rightarrow> get_fallback_exercises subj
      | NoJson \<Rightarrow> get_fallback_exercises subj
      | Parsed exercises_data \<Rightarrow>
          (case exercises_list_of exercises_data of
             None \<Rightarrow> get_fallback_exercises subj
           | Some exercises_list \<Rightarrow>
               let exercises = collect_exercises answer_text subj user_id 0 exercises_list
               in if exercises \<noteq> [] then exercises else get_fallback_exercises subj))"

subsection \<open>The manager and its sessions\<close>

record exercise_result =
  res_exercise_id :: string
  res_question :: json
  res_user_answer :: string
  res_correct_answer :: string
  res_is_correct :: bool
  res_explanation :: json
  res_options :: "json list"

text \<open>The five dictionaries of an \<open>ExerciseManager\<close>, all keyed by user id.\<close>

record exercise_manager =
  active_exercises :: "int \<rightharpoonup> exercise list"
  user_answers :: "int \<rightharpoonup> (string \<rightharpoonup> string)"
  exercise_results :: "int \<rightharpoonup> exercise_result list"
  user_current_index :: "int \<rightharpoonup> int"
  session_ids :: "int \<rightharpoonup> string"

definition new_exercise_manager :: exercise_manager where
  "new_exercise_manager =
     \<lparr>active_exercises = Map.empty, user_answers = Map.empty, exercise_results = Map.empty,
      user_current_index = Map.empty, session_ids = Map.empty\<rparr>"

text \<open>
  \<open>start_exercise_session\<close>. The identifier \<open>str(uuid.uuid4())\<close> drawn by the call is
  the argument \<open>new_uuid\<close>. The handler of the outer \<open>try\<close> is not reached:
  \<open>_generate_exercises\<close> catches every exception itself.
\<close>

definition start_exercise_session ::
  "(json \<Rightarrow> string) \<Rightarrow> exercise_manager \<Rightarrow> int \<Rightarrow> string \<Rightarrow> string \<Rightarrow> llm_outcome \<Rightarrow>
     exercise list \<times> exercise_manager" where
  "start_exercise_session answer_text m user_id subj new_uuid response =
     (let m1 = m\<lparr>session_ids := (session_ids m)(user_id \<mapsto> new_uuid)\<rparr>;
          generated = generate_exercises answer_text subj user_id response;
          m2 = m1\<lparr>active_exercises := (active_exercises m1)(user_id \<mapsto> []),
                  user_answers := (user_answers m1)(user_id \<mapsto> Map.empty)\<rparr>;
          exercises = (if generated = [] then get_fallback_exercises subj else generated)
      in (exercises, m2\<lparr>active_exercises := (active_exercises m2)(user_id \<mapsto> exercises)\<rparr>))"

text \<open>\<open>get_current_exercise\<close>.\<close>

definition get_current_exercise :: "exercise_manager \<Rightarrow> int \<Rightarrow> int \<Rightarrow> exercise option" where
  "get_current_exercise m user_id exercise_index =
     (case active_exercises m user_id of
        None \<Rightarrow> None
      | Some exercises \<Rightarrow>
          if exercises \<noteq> [] \<and> 0 \<le> exercise_index \<and> exercise_index < int (length exercises)
          then Some (exercises ! nat exercise_index) else None)"

text \<open>\<open>submit_answer\<close>: stores the answer under the exercise id, replacing an older one.\<close>

definition submit_answer :: "exercise_manager \<Rightarrow> int \<Rightarrow> string \<Rightarrow> string \<Rightarrow> exercise_manager" where
  "submit_answer m user_id eid answer =
     (let answers = (case user_answers m user_id of None \<Rightarrow> Map.empty | Some a \<Rightarrow> a)
      in m\<lparr>user_answers := (user_answers m)(user_id \<mapsto> answers(eid \<mapsto> answer))\<rparr>)"

text \<open>The loop of \<open>finish_exercise_session\<close> over the exercises, with its two
  accumulators \<open>results\<close> and \<open>correct_count\<close>.\<close>

fun score_exercises ::
  "(string \<rightharpoonup> string) \<Rightarrow> exercise list \<Rightarrow> exercise_result list \<Rightarrow> nat \<Rightarrow>
     exercise_result list \<times> nat" where
  "score_exercises answers [] results correct_count = (results, correct_count)"
| "score_exercises answers (e # es) results correct_count =
     (let user_answer = (case answers (exercise_id e) of None \<Rightarrow> [] | Some a \<Rightarrow> a);
          is_correct = (py_upper user_answer = py_upper (correct_answer e));
          result = \<lparr>res_exercise_id = exercise_id e, res_question = question e,
                    res_user_answer = user_answer, res_correct_answer = correct_answer e,
                    res_is_correct = is_correct, res_explanation = explanation e,
                    res_options = options e\<rparr>
      in score_exercises answers es (results @ [result])
           (if is_correct then correct_count + 1 else correct_count))"

text \<open>The four level messages of the source, in the order of its \<open>if\<close> chain.\<close>

datatype level = Excellent | Good | Satisfactory | NeedsImprovement

text \<open>\<open>percentage = (correct_count / total_count * 100) if total_count > 0 else 0\<close>,
  a float unless it is the integer 0.\<close>

definition exercise_percentage :: "nat \<Rightarrow> nat \<Rightarrow> rat" where
  "exercise_percentage correct_count total_count =
     (if total_count > 0
      then float_mul (float_div (int correct_count) (int total_count)) 100 else 0)"

definition level_of :: "rat \<Rightarrow> level" where
  "level_of p =
     (if p \<ge> 80 then Excellent
      else if p \<ge> 60 then Good
      else if p \<ge> 40 then Satisfactory
      else NeedsImprovement)"

record exercise_summary =
  total_questions :: nat
  correct_answers :: nat
  percentage :: rat
  level :: level
  results :: "exercise_result list"

text \<open>The dictionary \<open>{"error": "No active exercise session"}\<close>.\<close>

datatype exercise_error = NoActiveExerciseSession

text \<open>\<open>finish_exercise_session\<close>.\<close>

definition finish_exercise_session ::
  "exercise_manager \<Rightarrow> int \<Rightarrow> (exercise_error + exercise_summary) \<times> exercise_manager" where
  "finish_exercise_session m user_id =
     (case active_exercises m user_id of
        None \<Rightarrow> (Inl NoActiveExerciseSession, m)
      | Some exercises \<Rightarrow>
          let answers = (case user_answers m user_id of None \<Rightarrow> Map.empty | Some a \<Rightarrow> a);
              (rs, correct_count) = score_exercises answers exercises [] 0;
              total_count = length exercises;
              p = exercise_percentage correct_count total_count
          in (Inr \<lparr>total_questions = total_count, correct_answers = correct_count,
                    percentage = p, level = level_of p, results = rs\<rparr>,
              m\<lparr>exercise_results := (exercise_results m)(user_id \<mapsto> rs),
                active_exercises := (active_exercises m)(user_id := None),
                user_answers := (user_answers m)(user_id := None),
                session_ids := (session_ids m)(user_id := None)\<rparr>))"

text \<open>\<open>is_exercise_session_active\<close>.\<close>

definition is_exercise_session_active :: "exercise_manager \<Rightarrow> int \<Rightarrow> bool" where
  "is_exercise_session_active m user_id =
     (case active_exercises m user_id of None \<Rightarrow> False | Some exercises \<Rightarrow> length exercises > 0)"

text \<open>The index accessors.\<close>

definition get_current_exercise_index :: "exercise_manager \<Rightarrow> int \<Rightarrow> int" where
  "get_current_exercise_index m user_id =
     (case user_current_index m user_id of None \<Rightarrow> 0 | Some i \<Rightarrow> i)"

definition set_current_exercise_index :: "exercise_manager \<Rightarrow> int \<Rightarrow> int \<Rightarrow> exercise_manager" where
  "set_current_exercise_index m user_id i =
     m\<lparr>user_current_index := (user_current_index m)(user_id \<mapsto> i)\<rparr>"

definition reset_current_index :: "exercise_manager \<Rightarrow> int \<Rightarrow> exercise_manager" where
  "reset_current_index m user_id =
     m\<lparr>user_current_index := (user_current_index m)(user_id := None)\<rparr>"

text \<open>
  \<open>get_short_session_id\<close>: the first six characters of the user's session id. When
  the user has none (or an empty one) it stores a new identifier first; \<open>new_uuid\<close> is
  the \<open>str(uuid.uuid4())\<close> it would draw.
\<close>

definition get_short_session_id ::
  "exercise_manager \<Rightarrow> int \<Rightarrow> string \<Rightarrow> string \<times> exercise_manager" where
  "get_short_session_id m user_id new_uuid =
     (case session_ids m user_id of
        Some sid \<Rightarrow>
          if sid \<noteq> [] then (take 6 sid, m)
          else (take 6 new_uuid, m\<lparr>session_ids := (session_ids m)(user_id \<mapsto> new_uuid)\<rparr>)
      | None \<Rightarrow> (take 6 new_uuid, m\<lparr>session_ids := (session_ids m)(user_id \<mapsto> new_uuid)\<rparr>))"

section \<open>Exercise handlers (src/bot/handlers.py)\<close>

text \<open>\<open>reset_exercise_session\<close>: drops the user's exercises, answers and current index
  (the session id stays).\<close>

definition reset_exercise_session :: "exercise_manager \<Rightarrow> int \<Rightarrow> exercise_manager" where
  "reset_exercise_session m user_id =
     m\<lparr>active_exercises := (active_exercises m)(user_id := None),
       user_answers := (user_answers m)(user_id := None),
       user_current_index := (user_current_index m)(user_id := None)\<rparr>"

text \<open>
  What \<open>handle_exercise_answer\<close> tells the user, one constructor for each way the
  handler ends:
  \<^item> \<open>FormatError\<close>, \<open>BadIndex\<close>: the payload is not \<open>ex:a:b:c\<close>, or \<open>int\<close> raises on
    the index field;
  \<^item> \<open>StaleSession\<close>: the session field is not the user's current short session id;
  \<^item> \<open>NoActiveSession\<close>: the user has no exercises;
  \<^item> \<open>OutOfRange\<close>: the index is not below the number of exercises;
  \<^item> \<open>Unhandled\<close>: \<open>exercises[current_index]\<close> raises \<open>IndexError\<close>, which
    \<open>handle_async_error\<close> logs and swallows;
  \<^item> \<open>DuplicateIgnored\<close>: the answers of the user already hold this exercise id;
  \<^item> \<open>ShowNext i e\<close>: the answer is stored and exercise \<open>e\<close> is shown as number \<open>i\<close>;
  \<^item> \<open>ShowResults r\<close>: the answer is stored, the session is finished and its
    results are shown;
  \<^item> \<open>FinishFailed\<close>: showing the results raises (the \<open>except\<close> of the last branch).
\<close>

datatype answer_outcome =
    FormatError
  | BadIndex
  | StaleSession
  | NoActiveSession
  | OutOfRange
  | Unhandled
  | DuplicateIgnored
  | ShowNext int exercise
  | ShowResults exercise_summary
  | FinishFailed

text \<open>\<open>f"{subject}_{user_id}_{index}"\<close>, the key under which the handler stores an
  answer.\<close>

definition short_exercise_id :: "string \<Rightarrow> int \<Rightarrow> int \<Rightarrow> string" where
  "short_exercise_id subj user_id i = subj @ ''_'' @ str_int user_id @ ''_'' @ str_int i"

text \<open>
  The handler from the point where the payload is split and the index parsed:
  the session check, the range check, the duplicate check, the submission and the
  step to the next exercise or to the results. \<open>show_exercise\<close> asks for the short
  session id once more; the session check has passed by then, so the user has a
  non-empty session id and nothing is stored.
\<close>

definition answer_exercise ::
  "exercise_manager \<Rightarrow> int \<Rightarrow> string \<Rightarrow> int \<Rightarrow> string \<Rightarrow> string \<Rightarrow>
     answer_outcome \<times> exercise_manager" where
  "answer_exercise m user_id session_id selected_index answer new_uuid =
     (let (current_session, m1) = get_short_session_id m user_id new_uuid
      in if current_session = [] \<or> session_id \<noteq> current_session then (StaleSession, m1)
         else
           (case active_exercises m1 user_id of
              None \<Rightarrow> (NoActiveSession, m1)
            | Some exercises \<Rightarrow>
                let current_index = selected_index
                in if current_index \<ge> int (length exercises) then (OutOfRange, m1)
                   else
                     (case py_index exercises current_index of
                        None \<Rightarrow> (Unhandled, m1)
                      | Some current_exercise \<Rightarrow>
                          let eid = short_exercise_id (subject current_exercise) user_id current_index
                          in if (case user_answers m1 user_id of
                                   None \<Rightarrow> False
                                 | Some ua \<Rightarrow> ua eid \<noteq> None)
                             then (DuplicateIgnored, m1)
                             else
                               let m2 = submit_answer m1 user_id eid answer;
                                   next_index = current_index + 1;
                                   m3 = set_current_exercise_index m2 user_id next_index
                               in if next_index < int (length exercises)
                                  then (case py_index exercises next_index of
                                          None \<Rightarrow> (Unhandled, m3)
                                        | Some next_exercise \<Rightarrow>
                                            (ShowNext next_index next_exercise, m3))
                                  else
                                    let (res, m4) = finish_exercise_session m3 user_id;
                                        m5 = reset_current_index m4 user_id
                                    in (case res of
                                          Inl _ \<Rightarrow> (FinishFailed, m5)
                                        | Inr r \<Rightarrow> (ShowResults r, m5)))))"

text \<open>
  \<open>handle_exercise_answer\<close>: \<open>data\<close> is the callback payload \<open>query.data\<close>, expected as
  \<open>ex:{session_id6}:{index}:{letter}\<close>, and \<open>new_uuid\<close> the identifier
  \<open>get_short_session_id\<close> draws when it has to.
\<close>

definition handle_exercise_answer ::
  "exercise_manager \<Rightarrow> int \<Rightarrow> string \<Rightarrow> string \<Rightarrow> answer_outcome \<times> exercise_manager" where
  "handle_exercise_answer m user_id data new_uuid =
     (let parts = py_split (CHR '':'') data
      in if length parts \<noteq> 4 \<or> parts ! 0 \<noteq> ''ex'' then (FormatError, m)
         else
           (case py_int (parts ! 2) of
              None \<Rightarrow> (BadIndex, m)
            | Some selected_index \<Rightarrow>
                answer_exercise m user_id (parts ! 1) selected_index (parts ! 3) new_uuid))"

text \<open>\<open>handle_exercise_finish\<close>: the \<open>exercise_finish\<close> button.\<close>

definition handle_exercise_finish ::
  "exercise_manager \<Rightarrow> int \<Rightarrow> answer_outcome \<times> exercise_manager" where
  "handle_exercise_finish m user_id =
     (case finish_exercise_session m user_id of
        (Inl _, m') \<Rightarrow> (FinishFailed, m')
      | (Inr r, m') \<Rightarrow> (ShowResults r, m'))"

section \<open>Fixed test manager (src/test_manager.py)\<close>

text \<open>
  A question of the fixed test, a dictionary of the question bank. The code reads
  \<open>section\<close>, \<open>question\<close>, \<open>explanation\<close> and \<open>options\<close> with \<open>get\<close> and a default when
  it processes an answer, so these may be absent; \<open>id\<close> and \<open>correct_answer\<close> are
  subscripted and are fields every question of the bank has.
\<close>

record question =
  q_id :: int
  q_section :: "string option"
  q_question :: "string option"
  q_options :: "string list option"
  q_explanation :: "string option"
  q_correct_answer :: string

text \<open>\<open>any(k in text for k in keywords)\<close>.\<close>

definition any_in :: "string list \<Rightarrow> string \<Rightarrow> bool" where
  "any_in keywords txt = list_ex (\<lambda>k. is_substring k txt) keywords"

text \<open>The keyword rules of \<open>_infer_topic\<close> for the two sections, first match wins.\<close>

definition grammar_topic :: "string \<Rightarrow> string" where
  "grammar_topic txt =
     (if any_in [''past perfect'', ''by the time'', ''had ''] txt
        then ''Tenses: Past Perfect''
      else if any_in [''future continuous'', ''will be'', ''this time next''] txt
        then ''Tenses: Future Continuous''
      else if any_in [''present perfect'', ''yet'', ''have '', ''has ''] txt
        then ''Tenses: Present Perfect''
      else if any_in [''conditional'', ''if i'', ''would ''] txt
        then ''Conditionals (II)''
      else if any_in [(''mustn'' @ [CHR 0x27] @ ''t''), (''mustn'' @ [CHR 0x27]), ''mustn'',
                      ''must not'', ''must '', ''should '', ''have to'', ''modal''] txt
        then ''Modals''
      else if any_in [''reported speech'', ''asked me where'', ''indirect speech''] txt
        then ''Reported Speech''
      else if any_in [''article'', '' the '', '' a '', '' an ''] txt
        then ''Articles''
      else if any_in [''passive'', ''was read'', ''is made'', ''were ''] txt
        then ''Passive Voice''
      else if any_in [''preposition'', ''in '', ''on '', ''at '', ''for ''] txt
        then ''Prepositions''
      else ''Grammar: Other'')"

definition vocabulary_topic :: "string \<Rightarrow> string" where
  "vocabulary_topic txt =
     (if any_in [''phrasal'', ''look up'', ''look after'', ''look into'', ''look for''] txt
        then ''Vocabulary: Phrasal Verbs''
      else if any_in [''collocation'', ''make a decision'', ''take'', ''do ''] txt
        then ''Vocabulary: Collocations''
      else if any_in [''word formation'', ''-tion'', ''-ment'', ''prefix'', ''suffix''] txt
        then ''Vocabulary: Word Formation''
      else if any_in [''synonym'', ''antonym'', ''closest in meaning''] txt
        then ''Vocabulary: Synonyms/Antonyms''
      else if any_in [''idiom'', ''open-minded'', ''piece of cake''] txt
        then ''Vocabulary: Idioms''
      else ''Vocabulary: Other'')"

text \<open>\<open>_infer_topic(section, question, explanation, options)\<close>.\<close>

definition infer_topic :: "string \<Rightarrow> string \<Rightarrow> string \<Rightarrow> string list \<Rightarrow> string" where
  "infer_topic sec q expl opts =
     (let txt = py_lower (q @ '' '' @ expl @ '' '' @ py_join '' '' opts)
      in if sec = ''grammar'' then grammar_topic txt
         else if sec = ''vocabulary'' then vocabulary_topic txt
         else py_capitalize sec)"

text \<open>An entry of the answer log of a test.\<close>

record answer_entry =
  a_question_id :: int
  a_user_answer :: string
  a_correct_answer :: string
  a_is_correct :: bool
  a_section :: string
  a_topic :: string

text \<open>
  The test of one user: \<open>active_tests[user_id]\<close>. The cursor \<open>current_question\<close>
  starts at 0 and is only ever incremented, so it is a natural number.
\<close>

record test_session =
  questions :: "question list"
  current_question :: nat
  score :: nat
  answers :: "answer_entry list"

text \<open>The counters kept for each section and each topic.\<close>

record tally =
  total :: nat
  correct :: nat

text \<open>
  The dictionary \<open>finish_test\<close> returns. Dictionaries whose order of insertion shows
  (\<open>section_stats\<close>, \<open>topic_stats\<close>) are lists of items with distinct keys. The
  percentage is a float; the accuracies of the topics are exact quotients, compared
  with 7/10 and 6/10 (the source compares floats with 0.7 and 0.6).
\<close>

record test_report =
  tr_total_questions :: nat
  tr_score :: nat
  tr_percentage :: rat
  tr_answers :: "answer_entry list"
  tr_section_stats :: "(string \<times> tally) list"
  tr_topic_stats :: "(string \<times> tally) list"
  tr_strengths :: "string list"
  tr_weaknesses :: "string list"

text \<open>
  A \<open>TestManager\<close>. \<open>fixed_test\<close> is the list under the key \<open>questions\<close> of the bank
  loaded at start-up (from \<open>data/fixed_test.json\<close>, or the default test), \<open>None\<close> when
  the loaded document has no such key.
\<close>

record test_manager =
  active_tests :: "int \<rightharpoonup> test_session"
  test_results :: "int \<rightharpoonup> test_report list"
  fixed_test :: "question list option"

text \<open>\<open>start_test_for_user\<close>: \<open>False\<close> when building the session raises.\<close>

definition start_test_for_user :: "test_manager \<Rightarrow> int \<Rightarrow> bool \<times> test_manager" where
  "start_test_for_user tm user_id =
     (case fixed_test tm of
        None \<Rightarrow> (False, tm)
      | Some qs \<Rightarrow>
          (True, tm\<lparr>active_tests := (active_tests tm)(user_id \<mapsto>
                       \<lparr>questions = qs, current_question = 0, score = 0, answers = []\<rparr>)\<rparr>))"

text \<open>\<open>get_current_question\<close>.\<close>

definition get_current_question :: "test_manager \<Rightarrow> int \<Rightarrow> question option" where
  "get_current_question tm user_id =
     (case active_tests tm user_id of
        None \<Rightarrow> None
      | Some t \<Rightarrow>
          if current_question t < length (questions t)
          then Some (questions t ! current_question t) else None)"

text \<open>\<open>d.get(key, default)\<close> for the optional fields of a question.\<close>

definition get_or :: "'a option \<Rightarrow> 'a \<Rightarrow> 'a" where
  "get_or field dflt = (case field of None \<Rightarrow> dflt | Some v \<Rightarrow> v)"

text \<open>\<open>process_answer\<close>.\<close>

definition process_answer :: "test_manager \<Rightarrow> int \<Rightarrow> string \<Rightarrow> test_manager" where
  "process_answer tm user_id answer =
     (case active_tests tm user_id of
        None \<Rightarrow> tm
      | Some t \<Rightarrow>
          let current_idx = current_question t
          in if current_idx \<ge> length (questions t) then tm
             else
               let cq = questions t ! current_idx;
                   sec = get_or (q_section cq) [];
                   expl = get_or (q_explanation cq) [];
                   opts = get_or (q_options cq) [];
                   topic = infer_topic sec (get_or (q_question cq) []) expl opts;
                   entry = \<lparr>a_question_id = q_id cq, a_user_answer = answer,
                            a_correct_answer = q_correct_answer cq,
                            a_is_correct = (answer = q_correct_answer cq),
                            a_section = sec, a_topic = topic\<rparr>;
                   t1 = t\<lparr>answers := answers t @ [entry]\<rparr>;
                   t2 = (if answer = q_correct_answer cq then t1\<lparr>score := score t1 + 1\<rparr>
                         else t1);
                   t3 = t2\<lparr>current_question := current_question t2 + 1\<rparr>
               in tm\<lparr>active_tests := (active_tests tm)(user_id \<mapsto> t3)\<rparr>)"

text \<open>\<open>is_test_completed\<close>.\<close>

definition is_test_completed :: "test_manager \<Rightarrow> int \<Rightarrow> bool" where
  "is_test_completed tm user_id =
     (case active_tests tm user_id of
        None \<Rightarrow> False
      | Some t \<Rightarrow> current_question t \<ge> length (questions t))"

text \<open>Assignment \<open>d[k] = v\<close> on a dictionary kept as a list of items: an existing key
  keeps its place, a new key goes to the end.\<close>

fun dict_set :: "('k \<times> 'v) list \<Rightarrow> 'k \<Rightarrow> 'v \<Rightarrow> ('k \<times> 'v) list" where
  "dict_set [] k v = [(k, v)]"
| "dict_set ((k', v') # rest) k v =
     (if k' = k then (k, v) # rest else (k', v') # dict_set rest k v)"

text \<open>
  One step of the statistics loop for a key: create the counters when the key is
  new, add one to \<open>total\<close>, and one to \<open>correct\<close> for a correct answer.
\<close>

definition count_answer :: "(string \<times> tally) list \<Rightarrow> string \<Rightarrow> bool \<Rightarrow> (string \<times> tally) list" where
  "count_answer stats key is_correct =
     (let stats1 = (if map_of stats key = None
                    then dict_set stats key \<lparr>total = 0, correct = 0\<rparr> else stats);
          c0 = (case map_of stats1 key of None \<Rightarrow> \<lparr>total = 0, correct = 0\<rparr> | Some c \<Rightarrow> c);
          c1 = c0\<lparr>total := total c0 + 1\<rparr>;
          c2 = (if is_correct then c1\<lparr>correct := correct c1 + 1\<rparr> else c1)
      in dict_set stats1 key c2)"

text \<open>The loop \<open>for answer in test['answers']\<close> with its two accumulators.\<close>

fun collect_stats ::
  "answer_entry list \<Rightarrow> (string \<times> tally) list \<Rightarrow> (string \<times> tally) list \<Rightarrow>
     (string \<times> tally) list \<times> (string \<times> tally) list" where
  "collect_stats [] section_stats topic_stats = (section_stats, topic_stats)"
| "collect_stats (a # rest) section_stats topic_stats =
     collect_stats rest
       (count_answer section_stats (a_section a) (a_is_correct a))
       (count_answer topic_stats (a_topic a) (a_is_correct a))"

text \<open>The loop \<open>for topic, stats in topic_stats.items()\<close> with the lists \<open>strengths\<close>
  and \<open>weaknesses\<close>.\<close>

fun classify_topics ::
  "(string \<times> tally) list \<Rightarrow> string list \<Rightarrow> string list \<Rightarrow> string list \<times> string list" where
  "classify_topics [] strengths weaknesses = (strengths, weaknesses)"
| "classify_topics ((topic, stats) # rest) strengths weaknesses =
     (if total stats > 0
      then
        let accuracy = (of_nat (correct stats) / of_nat (total stats) :: rat)
        in if accuracy \<ge> 7 / 10 then classify_topics rest (strengths @ [topic]) weaknesses
           else if accuracy \<le> 6 / 10 then classify_topics rest strengths (weaknesses @ [topic])
           else classify_topics rest strengths weaknesses
      else classify_topics rest strengths weaknesses)"

text \<open>\<open>(test['score'] / total_questions) * 100 if total_questions > 0 else 0\<close>.\<close>

definition test_percentage :: "nat \<Rightarrow> nat \<Rightarrow> rat" where
  "test_percentage sc n_questions =
     (if n_questions > 0 then float_mul (float_div (int sc) (int n_questions)) 100 else 0)"

text \<open>The dictionary \<open>results\<close> that \<open>finish_test\<close> builds from a session.\<close>

definition build_report :: "test_session \<Rightarrow> test_report" where
  "build_report t =
     (let n_questions = length (questions t);
          (section_stats, topic_stats) = collect_stats (answers t) [] [];
          (strengths, weaknesses) = classify_topics topic_stats [] []
      in \<lparr>tr_total_questions = n_questions, tr_score = score t,
          tr_percentage = test_percentage (score t) n_questions,
          tr_answers = answers t,
          tr_section_stats = section_stats, tr_topic_stats = topic_stats,
          tr_strengths = strengths, tr_weaknesses = weaknesses\<rparr>)"

text \<open>
  \<open>finish_test\<close>: \<open>None\<close> without a test, otherwise the report, which is appended to
  \<open>test_results[user_id]\<close>, and the test is removed. The writes to the user record
  and to the results file in between are wrapped in \<open>try\<close>; they change neither the
  report nor the manager and are not part of this function's model.
\<close>

definition finish_test :: "test_manager \<Rightarrow> int \<Rightarrow> test_report option \<times> test_manager" where
  "finish_test tm user_id =
     (case active_tests tm user_id of
        None \<Rightarrow> (None, tm)
      | Some t \<Rightarrow>
          let report = build_report t;
              earlier = (case test_results tm user_id of None \<Rightarrow> [] | Some rs \<Rightarrow> rs)
          in (Some report,
              tm\<lparr>test_results := (test_results tm)(user_id \<mapsto> earlier @ [report]),
                 active_tests := (active_tests tm)(user_id := None)\<rparr>))"

section \<open>Fixed test handlers (src/bot/handlers.py)\<close>

datatype py_error = KeyError | IndexError | TypeError

text \<open>What the test handlers send: a question with its keyboard, the line announcing
  the results, the results, and the three short messages.\<close>

datatype test_reply =
    QuestionSent question
  | Summarising
  | ResultsShown test_report
  | QuestionsUnavailable
  | StartFailed
  | TestCancelled

text \<open>
  \<open>send_question\<close>: it subscripts \<open>question\<close> and \<open>options\<close>, and
  \<open>create_question_keyboard\<close> takes the first character of every option.
\<close>

definition send_question :: "question \<Rightarrow> py_error + test_reply" where
  "send_question q =
     (case q_question q of
        None \<Rightarrow> Inl KeyError
      | Some _ \<Rightarrow>
          (case q_options q of
             None \<Rightarrow> Inl KeyError
           | Some opts \<Rightarrow> if list_ex (\<lambda>opt. opt = []) opts then Inl IndexError
                         else Inr (QuestionSent q)))"

text \<open>\<open>show_test_results\<close>: it subscripts \<open>results\<close> at once, which raises \<open>TypeError\<close>
  on \<open>None\<close>.\<close>

definition show_test_results :: "test_report option \<Rightarrow> py_error + test_reply" where
  "show_test_results res =
     (case res of None \<Rightarrow> Inl TypeError | Some r \<Rightarrow> Inr (ResultsShown r))"

text \<open>
  The outcome of a handler under \<open>handle_async_error\<close>: the replies sent, and the
  exception the decorator logged and swallowed, if any.
\<close>

type_synonym handler_outcome = "test_reply list \<times> py_error option"

definition after_replies :: "test_reply list \<Rightarrow> py_error + test_reply \<Rightarrow> handler_outcome" where
  "after_replies sent r = (case r of Inl e \<Rightarrow> (sent, Some e) | Inr x \<Rightarrow> (sent @ [x], None))"

text \<open>\<open>handle_test_actions\<close> for the three actions its pattern admits; any other
  action does nothing.\<close>

definition handle_test_actions ::
  "test_manager \<Rightarrow> int \<Rightarrow> string \<Rightarrow> handler_outcome \<times> test_manager" where
  "handle_test_actions tm user_id action =
     (if action = ''test_continue'' then
        (case get_current_question tm user_id of
           Some q \<Rightarrow> (after_replies [] (send_question q), tm)
         | None \<Rightarrow>
             let (res, tm') = finish_test tm user_id
             in (after_replies [Summarising] (show_test_results res), tm'))
      else if action = ''test_restart'' then
        (let tm1 = tm\<lparr>active_tests := (active_tests tm)(user_id := None)\<rparr>;
             (success, tm2) = start_test_for_user tm1 user_id
         in if success then
              (case get_current_question tm2 user_id of
                 Some q \<Rightarrow> (after_replies [] (send_question q), tm2)
               | None \<Rightarrow> (([QuestionsUnavailable], None), tm2))
            else (([StartFailed], None), tm2))
      else if action = ''test_cancel'' then
        (([TestCancelled], None), tm\<lparr>active_tests := (active_tests tm)(user_id := None)\<rparr>)
      else (([], None), tm))"

text \<open>\<open>handle_test_answer\<close>: \<open>data\<close> is the payload \<open>test_answer_<letter>\<close>; the
  handler removes the prefix with \<open>replace\<close>.\<close>

definition handle_test_answer ::
  "test_manager \<Rightarrow> int \<Rightarrow> string \<Rightarrow> handler_outcome \<times> test_manager" where
  "handle_test_answer tm user_id answer =
     (let tm1 = process_answer tm user_id answer
      in if is_test_completed tm1 user_id then
           (let (res, tm2) = finish_test tm1 user_id
            in (after_replies [Summarising] (show_test_results res), tm2))
         else
           (case get_current_question tm1 user_id of
              Some q \<Rightarrow> (after_replies [] (send_question q), tm1)
            | None \<Rightarrow> (([], None), tm1)))"

section \<open>User records (src/database/manager.py)\<close>

text \<open>
  A \<open>User\<close> record, as far as the gate reads it: the flag \<open>has_completed_test\<close>. The
  profile fields, the dates, the stored results and the aggregate statistics are
  left out.
\<close>

record user =
  u_user_id :: int
  u_has_completed_test :: bool

text \<open>
  The file \<open>data/users/{id}.json\<close> of a user, when there is one: not JSON
  (\<open>get_user\<close> catches the decoding error and returns a new record), JSON that the
  \<open>User\<close> model rejects (the validation error leaves \<open>get_user\<close>), or a record.
\<close>

datatype user_file = CorruptJson | InvalidRecord | Stored user

text \<open>
  How the write of \<open>save_user\<close> ends: the record is written; \<open>open\<close> raises and the
  file stays as it was; or \<open>to_dict\<close> or \<open>json.dump\<close> raises after \<open>open\<close> has
  truncated the file, which is left empty or cut short and no longer decodes.
\<close>

datatype write_outcome = Written | OpenFailed | DumpFailed

datatype load_error = ValidationError

definition new_user :: "int \<Rightarrow> user" where
  "new_user uid = \<lparr>u_user_id = uid, u_has_completed_test = False\<rparr>"

definition get_user :: "(int \<rightharpoonup> user_file) \<Rightarrow> int \<Rightarrow> load_error + user" where
  "get_user files uid =
     (case files uid of
        None \<Rightarrow> Inr (new_user uid)
      | Some CorruptJson \<Rightarrow> Inr (new_user uid)
      | Some InvalidRecord \<Rightarrow> Inl ValidationError
      | Some (Stored usr) \<Rightarrow> Inr usr)"

text \<open>\<open>save_user\<close> writes the record to the file named after its user id; it catches
  and prints every exception, so the caller does not learn how the write ended.\<close>

definition save_user ::
  "(int \<rightharpoonup> user_file) \<Rightarrow> user \<Rightarrow> write_outcome \<Rightarrow> (int \<rightharpoonup> user_file)" where
  "save_user files usr w =
     (case w of
        Written \<Rightarrow> files(u_user_id usr \<mapsto> Stored usr)
      | OpenFailed \<Rightarrow> files
      | DumpFailed \<Rightarrow> files(u_user_id usr \<mapsto> CorruptJson))"

text \<open>\<open>mark_test_completed\<close>: \<open>False\<close>, and nothing written, when the record cannot be
  loaded; \<open>True\<close> otherwise, however the write ends.\<close>

definition mark_test_completed ::
  "(int \<rightharpoonup> user_file) \<Rightarrow> int \<Rightarrow> write_outcome \<Rightarrow> bool \<times> (int \<rightharpoonup> user_file)" where
  "mark_test_completed files uid w =
     (case get_user files uid of
        Inl _ \<Rightarrow> (False, files)
      | Inr usr \<Rightarrow> (True, save_user files (usr\<lparr>u_has_completed_test := True\<rparr>) w))"

text \<open>\<open>has_completed_test\<close>: \<open>False\<close> when the record cannot be loaded.\<close>

definition has_completed_test :: "(int \<rightharpoonup> user_file) \<Rightarrow> int \<Rightarrow> bool" where
  "has_completed_test files uid =
     (case get_user files uid of Inl _ \<Rightarrow> False | Inr usr \<Rightarrow> u_has_completed_test usr)"

section \<open>The completion gate (src/utils/validators.py) and the exercise commands\<close>

text \<open>The file \<open>data/tests/user_{id}.json\<close>, when it exists: reading or decoding it
  raises, or it holds a JSON value.\<close>

datatype test_file = Unreadable | Loaded json

text \<open>Truth value and \<open>len\<close> of a loaded JSON value; \<open>len\<close> raises \<open>TypeError\<close> (here
  \<open>None\<close>) on null, booleans and numbers.\<close>

fun py_truthy :: "json \<Rightarrow> bool" where
  "py_truthy JNull = False"
| "py_truthy (JBool b) = b"
| "py_truthy (JInt i) = (i \<noteq> 0)"
| "py_truthy (JFloat s) = (s \<noteq> ''0.0'' \<and> s \<noteq> ''-0.0'')"
| "py_truthy (JStr s) = (s \<noteq> [])"
| "py_truthy (JArr xs) = (xs \<noteq> [])"
| "py_truthy (JObj kvs) = (kvs \<noteq> [])"

fun py_len :: "json \<Rightarrow> nat option" where
  "py_len (JStr s) = Some (length s)"
| "py_len (JArr xs) = Some (length xs)"
| "py_len (JObj kvs) = Some (length kvs)"
| "py_len _ = None"

text \<open>What the handlers of the bot work on: the two managers, the user files and the
  result files.\<close>

record bot_state =
  bot_exercises :: exercise_manager
  bot_tests :: test_manager
  bot_users :: "int \<rightharpoonup> user_file"
  bot_test_files :: "int \<rightharpoonup> test_file"

text \<open>The two messages with which the gate stops a command.\<close>

datatype gate_reply = FinishCurrentTestFirst | TakeDiagnosticTestFirst

text \<open>
  The decorator \<open>require_test_completion\<close> around a handler \<open>func\<close>: \<open>Inl\<close> when the
  gate has sent its own message and returns without calling \<open>func\<close>, \<open>Inr\<close> with the
  outcome of \<open>func\<close> otherwise.

  Sending a message (\<open>reply_text\<close>) may raise. \<open>sent n\<close> tells whether the call number
  \<open>n\<close> of \<open>reply_text\<close> in this run of the wrapper, counted from 0, returns. When the
  prompt of the first check raises, the bare \<open>except\<close> passes on to the second check.
  In the second check, the prompt for an empty results file is sent inside the inner
  \<open>try\<close>, so when it raises the inner handler sends it once more; this handler also
  takes a file that cannot be read and a \<open>len\<close> that raises. When a prompt sent
  outside the inner \<open>try\<close> raises, the outer handler passes and \<open>func\<close> is called.
  \<open>w\<close> is how the write of \<open>mark_test_completed\<close> ends.
\<close>

definition call :: "(bot_state \<Rightarrow> int \<Rightarrow> 'r \<times> bot_state) \<Rightarrow> bot_state \<Rightarrow> int \<Rightarrow>
     (gate_reply + 'r) \<times> bot_state" where
  "call func s uid = (let (r, s2) = func s uid in (Inr r, s2))"

definition require_test_completion ::
  "(nat \<Rightarrow> bool) \<Rightarrow> write_outcome \<Rightarrow> (bot_state \<Rightarrow> int \<Rightarrow> 'r \<times> bot_state) \<Rightarrow> bot_state \<Rightarrow> int \<Rightarrow>
     (gate_reply + 'r) \<times> bot_state" where
  "require_test_completion sent w func s uid =
     (let in_test = (active_tests (bot_tests s) uid \<noteq> None);
          k = (if in_test then 1 else 0 :: nat)
      in if in_test \<and> sent 0 then (Inl FinishCurrentTestFirst, s)
         else if \<not> has_completed_test (bot_users s) uid then
           (let handler = (if sent k then (Inl TakeDiagnosticTestFirst, s) else call func s uid);
                again = (if sent (k + 1) then (Inl TakeDiagnosticTestFirst, s)
                         else call func s uid);
                empty_file = (if sent k then (Inl TakeDiagnosticTestFirst, s) else again)
            in case bot_test_files s uid of
                 None \<Rightarrow> handler
               | Some Unreadable \<Rightarrow> handler
               | Some (Loaded loaded) \<Rightarrow>
                   if py_truthy loaded then
                     (case py_len loaded of
                        None \<Rightarrow> handler
                      | Some n \<Rightarrow>
                          if n > 0 then
                            call func
                              (s\<lparr>bot_users := snd (mark_test_completed (bot_users s) uid w)\<rparr>) uid
                          else empty_file)
                   else empty_file)
         else call func s uid)"

text \<open>What an exercise command answers once it runs: the apology when there are no
  exercises, or the first exercise with the size of the batch.\<close>

datatype command_reply = CreationFailed | FirstExercise exercise nat

text \<open>The common part of the two commands: start the session, set the index to 0,
  show the first exercise (\<open>show_exercise\<close> asks for the short session id).\<close>

definition start_and_show ::
  "(json \<Rightarrow> string) \<Rightarrow> exercise_manager \<Rightarrow> int \<Rightarrow> string \<Rightarrow> string \<Rightarrow> llm_outcome \<Rightarrow>
     command_reply \<times> exercise_manager" where
  "start_and_show answer_text m uid subj new_uuid response =
     (let (exs, m1) = start_exercise_session answer_text m uid subj new_uuid response
      in if exs = [] then (CreationFailed, m1)
         else
           let m2 = set_current_exercise_index m1 uid 0;
               m3 = snd (get_short_session_id m2 uid new_uuid)
           in (FirstExercise (exs ! 0) (length exs), m3))"

text \<open>The body of \<open>vocabulary_command\<close>: it always resets the exercise session first.\<close>

definition vocabulary_body ::
  "(json \<Rightarrow> string) \<Rightarrow> string \<Rightarrow> llm_outcome \<Rightarrow> bot_state \<Rightarrow> int \<Rightarrow>
     command_reply \<times> bot_state" where
  "vocabulary_body answer_text new_uuid response s uid =
     (let m = reset_exercise_session (bot_exercises s) uid;
          (r, m') = start_and_show answer_text m uid ''vocabulary'' new_uuid response
      in (r, s\<lparr>bot_exercises := m'\<rparr>))"

text \<open>The body of \<open>grammar_command\<close>: it resets the exercise session when one is
  active.\<close>

definition grammar_body ::
  "(json \<Rightarrow> string) \<Rightarrow> string \<Rightarrow> llm_outcome \<Rightarrow> bot_state \<Rightarrow> int \<Rightarrow>
     command_reply \<times> bot_state" where
  "grammar_body answer_text new_uuid response s uid =
     (let m = (if is_exercise_session_active (bot_exercises s) uid
               then reset_exercise_session (bot_exercises s) uid else bot_exercises s);
          (r, m') = start_and_show answer_text m uid ''grammar'' new_uuid response
      in (r, s\<lparr>bot_exercises := m'\<rparr>))"

text \<open>
  The two commands, decorated. What a run of a command meets outside the bot is
  gathered in one record: the function computing the answer text, the outcomes of
  the gate's messages and of the write, the identifier drawn and the generator's
  response.
\<close>

record surroundings =
  env_answer_text :: "json \<Rightarrow> string"
  env_reply_returns :: "nat \<Rightarrow> bool"
  env_user_write :: write_outcome
  env_uuid :: string
  env_response :: llm_outcome

definition vocabulary_command ::
  "surroundings \<Rightarrow> bot_state \<Rightarrow> int \<Rightarrow> (gate_reply + command_reply) \<times> bot_state" where
  "vocabulary_command env s uid =
     require_test_completion (env_reply_returns env) (env_user_write env)
       (vocabulary_body (env_answer_text env) (env_uuid env) (env_response env)) s uid"

definition grammar_command ::
  "surroundings \<Rightarrow> bot_state \<Rightarrow> int \<Rightarrow> (gate_reply + command_reply) \<times> bot_state" where
  "grammar_command env s uid =
     require_test_completion (env_reply_returns env) (env_user_write env)
       (grammar_body (env_answer_text env) (env_uuid env) (env_response env)) s uid"

section \<open>Chat history tracker (src/bot/handlers.py)\<close>

text \<open>
  The module-level dictionary \<open>user_chat_history\<close> maps a user id to the list of
  messages of that user; it starts empty. A message is the dictionary
  \<open>{"role": role, "content": content}\<close>.
\<close>

record message =
  role :: string
  content :: string

type_synonym chat_store = "int \<rightharpoonup> message list"

text \<open>
  \<^verbatim>\<open>
  def add_to_chat_history(user_id, role, content):
      if user_id not in user_chat_history:
          user_chat_history[user_id] = []
      user_chat_history[user_id].append({"role": role, "content": content})
      if len(user_chat_history[user_id]) > 20:
          user_chat_history[user_id] = user_chat_history[user_id][-20:]
  \<close>
\<close>

definition add_to_chat_history :: "chat_store \<Rightarrow> int \<Rightarrow> string \<Rightarrow> string \<Rightarrow> chat_store" where
  "add_to_chat_history h user_id r c =
     (let h1 = (case h user_id of None \<Rightarrow> h(user_id \<mapsto> []) | Some _ \<Rightarrow> h);
          old = (case h1 user_id of None \<Rightarrow> [] | Some xs \<Rightarrow> xs);
          h2 = h1(user_id \<mapsto> old @ [\<lparr>role = r, content = c\<rparr>]);
          cur = (case h2 user_id of None \<Rightarrow> [] | Some xs \<Rightarrow> xs)
      in if length cur > 20 then h2(user_id \<mapsto> slice_last 20 cur) else h2)"

text \<open>\<open>get_chat_history\<close>: \<open>user_chat_history.get(user_id, [])\<close>.\<close>

definition get_chat_history :: "chat_store \<Rightarrow> int \<Rightarrow> message list" where
  "get_chat_history h user_id = (case h user_id of None \<Rightarrow> [] | Some xs \<Rightarrow> xs)"

text \<open>\<open>clear_chat_history\<close>: delete the user's entry when there is one.\<close>

definition clear_chat_history :: "chat_store \<Rightarrow> int \<Rightarrow> chat_store" where
  "clear_chat_history h user_id = (case h user_id of None \<Rightarrow> h | Some _ \<Rightarrow> h(user_id := None))"

text \<open>A sequence of append operations, each with its user, role and content, applied
  in order.\<close>

type_synonym append_op = "int \<times> string \<times> string"

fun append_all :: "chat_store \<Rightarrow> append_op list \<Rightarrow> chat_store" where
  "append_all h [] = h"
| "append_all h ((u, r, c) # ops) = append_all (add_to_chat_history h u r c) ops"

text \<open>The messages a sequence of operations appends for one user, in order.\<close>

fun messages_of :: "int \<Rightarrow> append_op list \<Rightarrow> message list" where
  "messages_of u [] = []"
| "messages_of u ((v, r, c) # ops) =
     (if v = u then \<lparr>role = r, content = c\<rparr> # messages_of u ops else messages_of u ops)"

section \<open>Notions used in the statements\<close>

text \<open>An exercise with exactly four options and a correct answer letter among A, B, C
  and D.\<close>

definition well_formed_item :: "exercise \<Rightarrow> bool" where
  "well_formed_item e =
     (length (options e) = 4 \<and> correct_answer e \<in> set [''A'', ''B'', ''C'', ''D''])"

text \<open>
  What the generator contract asks of an element of the list: it is an object whose
  \<open>options\<close> are a list of exactly four, whose answer text holds one of the letters
  A, B, C, D, and which has a question and an explanation. The answer text is that of
  the key \<open>correct_answer\<close>, of the empty string when the key is absent; the answer
  letter is the first of the four letters in it.
\<close>

definition fields_of :: "json \<Rightarrow> (string \<times> json) list" where
  "fields_of d = (case d of JObj kvs \<Rightarrow> kvs | _ \<Rightarrow> [])"

definition answer_field :: "json \<Rightarrow> json" where
  "answer_field d =
     (case dict_get (fields_of d) ''correct_answer'' of None \<Rightarrow> JStr [] | Some v \<Rightarrow> v)"

definition answer_letter :: "string \<Rightarrow> string option" where
  "answer_letter t =
     (case List.find (\<lambda>c. c = CHR ''A'' \<or> c = CHR ''B'' \<or> c = CHR ''C'' \<or> c = CHR ''D'') t of
        None \<Rightarrow> None
      | Some c \<Rightarrow> Some [c])"

definition four_options :: "json \<Rightarrow> bool" where
  "four_options d =
     (case dict_get (fields_of d) ''options'' of Some (JArr os) \<Rightarrow> length os = 4 | _ \<Rightarrow> False)"

definition usable :: "(json \<Rightarrow> string) \<Rightarrow> json \<Rightarrow> bool" where
  "usable answer_text d =
     (four_options d \<and> answer_letter (answer_text (answer_field d)) \<noteq> None \<and>
      dict_get (fields_of d) ''question'' \<noteq> None \<and>
      dict_get (fields_of d) ''explanation'' \<noteq> None)"

text \<open>The exercise a usable element at position \<open>i\<close> of the list stands for.\<close>

definition built_exercise :: "(json \<Rightarrow> string) \<Rightarrow> string \<Rightarrow> int \<Rightarrow> nat \<Rightarrow> json \<Rightarrow> exercise" where
  "built_exercise answer_text subj u i d =
     \<lparr>exercise_id = subj @ ''_'' @ str_int u @ ''_'' @ str_int (int i),
      subject = subj,
      question = (case dict_get (fields_of d) ''question'' of None \<Rightarrow> JNull | Some q \<Rightarrow> q),
      options = (case dict_get (fields_of d) ''options'' of Some (JArr os) \<Rightarrow> os | _ \<Rightarrow> []),
      correct_answer =
        (case answer_letter (answer_text (answer_field d)) of None \<Rightarrow> [] | Some l \<Rightarrow> l),
      explanation = (case dict_get (fields_of d) ''explanation'' of None \<Rightarrow> JNull | Some e \<Rightarrow> e),
      difficulty = ''medium''\<rparr>"

text \<open>One exercise for each usable element of the list, in the order of the list, each
  with the position of its element in its id.\<close>

definition expected_batch ::
  "(json \<Rightarrow> string) \<Rightarrow> string \<Rightarrow> int \<Rightarrow> nat \<Rightarrow> json list \<Rightarrow> exercise list" where
  "expected_batch answer_text subj u i xs =
     map (\<lambda>(j, d). built_exercise answer_text subj u j d)
       (filter (\<lambda>(j, d). usable answer_text d) (enumerate i xs))"

text \<open>The answer \<open>finish_exercise_session\<close> reads for an exercise, and the result record
  it builds from it.\<close>

definition answer_given :: "(string \<rightharpoonup> string) \<Rightarrow> exercise \<Rightarrow> string" where
  "answer_given stored e = (case stored (exercise_id e) of None \<Rightarrow> [] | Some a \<Rightarrow> a)"

definition result_of :: "(string \<rightharpoonup> string) \<Rightarrow> exercise \<Rightarrow> exercise_result" where
  "result_of stored e =
     \<lparr>res_exercise_id = exercise_id e, res_question = question e,
      res_user_answer = answer_given stored e, res_correct_answer = correct_answer e,
      res_is_correct = (py_upper (answer_given stored e) = py_upper (correct_answer e)),
      res_explanation = explanation e, res_options = options e\<rparr>"

subsection \<open>Concrete inputs\<close>

text \<open>An element of a generator response with \<open>n\<close> options (at most four) and the given
  answer text.\<close>

definition sample_item :: "nat \<Rightarrow> string \<Rightarrow> json" where
  "sample_item n letter =
     JObj [(''question'', JStr ''Pick one''),
           (''options'', JArr (map JStr (take n [''red'', ''green'', ''blue'', ''grey'']))),
           (''correct_answer'', JStr letter),
           (''explanation'', JStr ''Because'')]"

definition sample_uuid :: string where
  "sample_uuid = ''3f2a1b9c-1d2e-4f30-8a4b-5c6d7e8f9a0b''"

definition other_uuid :: string where
  "other_uuid = ''9e8d7c6b-5a49-4382-b716-0f1e2d3c4b5a''"

text \<open>User 7 has started a vocabulary session and got the fallback batch; the short
  session id on the buttons is \<open>3f2a1b\<close>.\<close>

definition sample_session :: exercise_manager where
  "sample_session =
     snd (start_exercise_session ascii_answer_text new_exercise_manager 7 ''vocabulary''
            sample_uuid NoJson)"

text \<open>The same user after the session has been finished.\<close>

definition finished_session :: exercise_manager where
  "finished_session = snd (finish_exercise_session sample_session 7)"

text \<open>The sample session with the right letters, in lower case, stored under the ids
  of the five exercises.\<close>

definition answered_by_id :: exercise_manager where
  "answered_by_id =
     submit_answer (submit_answer (submit_answer (submit_answer (submit_answer sample_session
       7 ''vocabulary_fallback_1'' ''a'') 7 ''vocabulary_fallback_2'' ''a'')
       7 ''vocabulary_fallback_3'' ''a'') 7 ''vocabulary_fallback_4'' ''b'')
       7 ''vocabulary_fallback_5'' ''a''"

text \<open>A sequence of answer buttons pressed by one user, handled in order: what the
  user is told after each press, and the manager after the last.\<close>

fun press_buttons ::
  "exercise_manager \<Rightarrow> int \<Rightarrow> string list \<Rightarrow> string \<Rightarrow>
     answer_outcome list \<times> exercise_manager" where
  "press_buttons m user_id [] new_uuid = ([], m)"
| "press_buttons m user_id (d # ds) new_uuid =
     (let (out, m1) = handle_exercise_answer m user_id d new_uuid;
          (outs, m2) = press_buttons m1 user_id ds new_uuid
      in (out # outs, m2))"

text \<open>The buttons with the right letters of the five fallback vocabulary exercises, as
  \<open>show_exercise\<close> labels them for the session \<open>3f2a1b\<close>.\<close>

definition right_buttons :: "string list" where
  "right_buttons =
     [''ex:3f2a1b:0:A'', ''ex:3f2a1b:1:A'', ''ex:3f2a1b:2:A'', ''ex:3f2a1b:3:B'',
      ''ex:3f2a1b:4:A'']"

subsection \<open>Notions and inputs for the fixed test\<close>

text \<open>For a topic and an answer log: the number of logged answers with that topic, the
  number of correct ones among them, and their quotient.\<close>

definition topic_total :: "answer_entry list \<Rightarrow> string \<Rightarrow> nat" where
  "topic_total entries t = length (filter (\<lambda>a. a_topic a = t) entries)"

definition topic_correct :: "answer_entry list \<Rightarrow> string \<Rightarrow> nat" where
  "topic_correct entries t = length (filter (\<lambda>a. a_topic a = t \<and> a_is_correct a) entries)"

definition topic_accuracy :: "answer_entry list \<Rightarrow> string \<Rightarrow> rat" where
  "topic_accuracy entries t = of_nat (topic_correct entries t) / of_nat (topic_total entries t)"

text \<open>The counters a statistics dictionary holds for a key, zero when the key is absent.\<close>

definition total_of :: "(string \<times> tally) list \<Rightarrow> string \<Rightarrow> nat" where
  "total_of stats k = (case map_of stats k of None \<Rightarrow> 0 | Some c \<Rightarrow> total c)"

definition correct_of :: "(string \<times> tally) list \<Rightarrow> string \<Rightarrow> nat" where
  "correct_of stats k = (case map_of stats k of None \<Rightarrow> 0 | Some c \<Rightarrow> correct c)"

text \<open>The two tests of the classification loop on the counters of a topic.\<close>

definition is_strength :: "tally \<Rightarrow> bool" where
  "is_strength s = (total s > 0 \<and> (of_nat (correct s) / of_nat (total s) :: rat) \<ge> 7 / 10)"

definition is_weakness :: "tally \<Rightarrow> bool" where
  "is_weakness s = (total s > 0 \<and> (of_nat (correct s) / of_nat (total s) :: rat) \<le> 6 / 10)"

text \<open>A small question bank, the test of user 7 just started on it, the same test
  after the answers a, c, c (the second one wrong), and a manager without tests.\<close>

definition sample_question :: "int \<Rightarrow> string \<Rightarrow> string \<Rightarrow> question" where
  "sample_question n sec letter =
     \<lparr>q_id = n, q_section = Some sec,
      q_question = Some ''She ___ already left.'',
      q_options = Some [''a) has'', ''b) have'', ''c) is'', ''d) are''],
      q_explanation = None, q_correct_answer = letter\<rparr>"

definition sample_tests :: test_manager where
  "sample_tests =
     snd (start_test_for_user
            \<lparr>active_tests = Map.empty, test_results = Map.empty,
             fixed_test = Some [sample_question 1 ''reading'' ''a'',
                                sample_question 2 ''reading'' ''b'',
                                sample_question 3 ''reading'' ''c'']\<rparr> 7)"

definition answered_tests :: test_manager where
  "answered_tests =
     process_answer (process_answer (process_answer sample_tests 7 ''a'') 7 ''c'') 7 ''c''"

definition no_tests :: test_manager where
  "no_tests = \<lparr>active_tests = Map.empty, test_results = Map.empty, fixed_test = None\<rparr>"

text \<open>A sequence of answers of one user, processed in order.\<close>

fun answer_all :: "test_manager \<Rightarrow> int \<Rightarrow> string list \<Rightarrow> test_manager" where
  "answer_all tm uid [] = tm"
| "answer_all tm uid (a # rest) = answer_all (process_answer tm uid a) uid rest"

text \<open>A bank of 25 questions with the answer a, and the test of user 7 on it after
  seven answers a and eighteen answers b.\<close>

definition long_bank :: "question list" where
  "long_bank = map (\<lambda>n. sample_question (int n) ''reading'' ''a'') [1..<26]"

definition long_tests :: test_manager where
  "long_tests =
     answer_all
       (snd (start_test_for_user
               \<lparr>active_tests = Map.empty, test_results = Map.empty,
                fixed_test = Some long_bank\<rparr> 7))
       7 (replicate 7 ''a'' @ replicate 18 ''b'')"

text \<open>The log entry of a question of the section \<open>reading\<close>.\<close>

definition reading_entry :: "int \<Rightarrow> string \<Rightarrow> string \<Rightarrow> answer_entry" where
  "reading_entry n given right =
     \<lparr>a_question_id = n, a_user_answer = given, a_correct_answer = right,
      a_is_correct = (given = right), a_section = ''reading'', a_topic = ''Reading''\<rparr>"

text \<open>What the answers of a test keep true of its session: the score counts the
  correct entries of the log, and the cursor is the length of the log, within the
  questions.\<close>

definition session_consistent :: "test_session \<Rightarrow> bool" where
  "session_consistent t =
     (score t = length (filter a_is_correct (answers t)) \<and>
      current_question t = length (answers t) \<and>
      current_question t \<le> length (questions t))"

subsection \<open>Notions and inputs for the gate\<close>

text \<open>A loaded results file that passes the test \<open>test_results and len(test_results) > 0\<close>:
  a non-empty list, object or string.\<close>

definition nonempty_results :: "json \<Rightarrow> bool" where
  "nonempty_results v = (py_truthy v \<and> (case py_len v of None \<Rightarrow> False | Some n \<Rightarrow> n > 0))"

text \<open>What the commands meet when every message is sent, the write succeeds, the
  identifier drawn is the sample one and the generator's response holds no JSON.\<close>

definition sample_env :: surroundings where
  "sample_env =
     \<lparr>env_answer_text = ascii_answer_text, env_reply_returns = (\<lambda>n. True),
      env_user_write = Written, env_uuid = sample_uuid, env_response = NoJson\<rparr>"

text \<open>
  A bot in which user 7 has no user file and no exercises, with or without a fixed
  test in progress, and with the given results file.
\<close>

definition gate_state :: "bool \<Rightarrow> test_file option \<Rightarrow> bot_state" where
  "gate_state in_test file =
     \<lparr>bot_exercises = new_exercise_manager,
      bot_tests = (if in_test then sample_tests else no_tests),
      bot_users = Map.empty,
      bot_test_files = (\<lambda>uid. if uid = 7 then file else None)\<rparr>"

section \<open>Properties of the rounding to doubles\<close>

text \<open>The rounded value is within half a unit of the last place, that is within the
  fraction \<open>2^-53\<close> of the number rounded.\<close>

lemma round_half_even_error: "\<bar>of_int (round_half_even y) - y\<bar> \<le> 1 / 2"
proof -
  have "of_int \<lfloor>y\<rfloor> \<le> y" "y < of_int \<lfloor>y\<rfloor> + 1" by linarith+
  then show ?thesis
    by (auto simp: round_half_even_def Let_def)
qed

lemma bitlen_powi:
  assumes "0 < a"
  shows "(2::rat) powi (bitlen a - 1) \<le> of_int a" "of_int a < (2::rat) powi (bitlen a)"
proof -
  from bitlen_bounds [OF assms]
  have 1: "2 ^ nat (bitlen a - 1) \<le> a" and 2: "a < 2 ^ nat (bitlen a)" by auto
  have b1: "1 \<le> bitlen a" using assms by (auto simp: bitlen_alt_def)
  have "(2::rat) powi (bitlen a - 1) = 2 ^ nat (bitlen a - 1)"
    using b1 by (simp add: power_int_def)
  also have "\<dots> = of_int (2 ^ nat (bitlen a - 1))" by simp
  also have "\<dots> \<le> of_int a" using 1 by (simp only: of_int_le_iff)
  finally show "(2::rat) powi (bitlen a - 1) \<le> of_int a" .
  have "of_int a < (of_int (2 ^ nat (bitlen a)) :: rat)" using 2 by (simp only: of_int_less_iff)
  also have "\<dots> = 2 powi (bitlen a)" using b1 by (simp add: power_int_def)
  finally show "of_int a < (2::rat) powi (bitlen a)" .
qed

lemma powi_pos: "0 < (2::rat) powi k"
  by (simp add: power_int_def)

lemma powi_add1: "(2::rat) powi (k + 1) = 2 * 2 powi k"
  by (simp add: power_int_add)

lemma powi_sub1: "(2::rat) powi (k - 1) = 2 powi k / 2"
  by (simp add: power_int_diff)

lemma powi_mono: "j \<le> k \<Longrightarrow> (2::rat) powi j \<le> 2 powi k"
  by (rule power_int_increasing) simp_all

lemma powi_strict_mono: "j < k \<Longrightarrow> (2::rat) powi j < 2 powi k"
  by (rule power_int_strict_increasing) simp_all

lemma binade_bounds:
  assumes "0 < x"
  shows "2 powi binade x \<le> x \<and> x < 2 powi (binade x + 1)"
proof -
  obtain a b where q: "quotient_of x = (a, b)" by (cases "quotient_of x")
  then have b: "0 < b" and x: "x = of_int a / of_int b"
    using quotient_of_denom_pos quotient_of_div by blast+
  have a: "0 < a" using assms b x by (simp add: zero_less_divide_iff)
  let ?k = "bitlen a - bitlen b"
  have bq: "(0::rat) < of_int b" using b by simp
  have up: "x < 2 powi (?k + 1)"
  proof -
    have "of_int a < (2::rat) powi (bitlen a)" by (rule bitlen_powi [OF a])
    moreover have "(2::rat) powi (bitlen b - 1) \<le> of_int b" by (rule bitlen_powi [OF b])
    ultimately have "of_int a * 2 powi (bitlen b - 1) < 2 powi (bitlen a) * (of_int b :: rat)"
      using bq powi_pos [of "bitlen b - 1"] powi_pos [of "bitlen a"]
      by (meson mult_less_le_imp_less less_imp_le of_int_0_less_iff a)
    then have "x * 2 powi (bitlen b - 1) < 2 powi (bitlen a)"
      using bq by (simp add: x field_simps)
    then have "x < 2 powi (bitlen a) / 2 powi (bitlen b - 1)"
      using powi_pos [of "bitlen b - 1"] by (simp add: field_simps)
    also have "\<dots> = 2 powi (?k + 1)"
      by (simp add: power_int_diff power_int_add)
    finally show ?thesis .
  qed
  have lo: "2 powi (?k - 1) \<le> x"
  proof -
    have "(2::rat) powi (bitlen a - 1) \<le> of_int a" by (rule bitlen_powi [OF a])
    moreover have "of_int b < (2::rat) powi (bitlen b)" by (rule bitlen_powi [OF b])
    ultimately have "2 powi (bitlen a - 1) * (of_int b :: rat) \<le> of_int a * 2 powi (bitlen b)"
      using bq powi_pos [of "bitlen b"] powi_pos [of "bitlen a - 1"] a
      by (meson mult_mono less_imp_le of_int_0_le_iff)
    then have "2 powi (bitlen a - 1) \<le> x * 2 powi (bitlen b)"
      using bq by (simp add: x field_simps)
    then have "2 powi (bitlen a - 1) / 2 powi (bitlen b) \<le> x"
      using powi_pos [of "bitlen b"] by (simp add: field_simps)
    moreover have "(2::rat) powi (bitlen a - 1) / 2 powi (bitlen b) = 2 powi (?k - 1)"
    proof -
      have e: "?k - 1 = bitlen a - 1 - bitlen b" by simp
      show ?thesis by (simp only: e) (simp add: power_int_diff)
    qed
    ultimately show ?thesis by simp
  qed
  show ?thesis
  proof (cases "2 powi ?k \<le> x")
    case True
    then have "binade x = ?k" by (simp add: binade_def q)
    with True up show ?thesis by simp
  next
    case False
    then have "binade x = ?k - 1" by (simp add: binade_def q)
    with False lo show ?thesis by simp
  qed
qed

lemma binade_unique:
  assumes "0 < x" "2 powi e \<le> x" "x < 2 powi (e + 1)"
  shows "binade x = e"
proof (rule ccontr)
  assume ne: "binade x \<noteq> e"
  from binade_bounds [OF assms(1)]
  have b: "2 powi binade x \<le> x" "x < 2 powi (binade x + 1)" by auto
  show False
  proof (cases "binade x < e")
    case True
    then have "(2::rat) powi (binade x + 1) \<le> 2 powi e" by (intro powi_mono) simp
    with b(2) assms(2) show False by simp
  next
    case False
    with ne have "e + 1 \<le> binade x" by simp
    then have "(2::rat) powi (e + 1) \<le> 2 powi binade x" by (rule powi_mono)
    with b(1) assms(3) show False by simp
  qed
qed

lemma to_double_at:
  assumes "0 < x" "2 powi e \<le> x" "x < 2 powi (e + 1)"
  shows "to_double x = of_int (round_half_even (x / 2 powi (e - 52))) * 2 powi (e - 52)"
  using assms binade_unique [OF assms] by (simp add: to_double_def Let_def)

lemma to_double_error:
  assumes "0 < x"
  shows "\<bar>to_double x - x\<bar> \<le> x / 2 ^ 53"
proof -
  let ?e = "binade x - 52"
  let ?s = "(2::rat) powi ?e"
  let ?y = "x / ?s"
  have s: "0 < ?s" by (rule powi_pos)
  have td: "to_double x = of_int (round_half_even ?y) * ?s"
    using assms by (simp add: to_double_def Let_def)
  have "\<bar>to_double x - x\<bar> = \<bar>of_int (round_half_even ?y) - ?y\<bar> * ?s"
  proof -
    have "to_double x - x = (of_int (round_half_even ?y) - ?y) * ?s"
      using s by (simp add: td field_simps)
    then show ?thesis using s by (simp add: abs_mult)
  qed
  also have "\<dots> \<le> (1 / 2) * ?s"
    using round_half_even_error [of ?y] s by (intro mult_right_mono) simp_all
  also have "\<dots> = 2 powi binade x / 2 ^ 53"
    by (simp add: power_int_diff)
  also have "\<dots> \<le> x / 2 ^ 53"
    using binade_bounds [OF assms] by (simp add: divide_right_mono)
  finally show ?thesis .
qed

lemma round_half_even_div:
  assumes "0 < q"
  shows "round_half_even (of_int p / of_int q) =
           (if 2 * (p mod q) < q then p div q
            else if q < 2 * (p mod q) then p div q + 1
            else if even (p div q) then p div q else p div q + 1)"
proof -
  have fl: "\<lfloor>(of_int p / of_int q :: rat)\<rfloor> = p div q"
    by (rule floor_divide_of_int_eq)
  have "(of_int p :: rat) = of_int (p div q) * of_int q + of_int (p mod q)"
    by (metis of_int_add of_int_mult div_mult_mod_eq)
  then have d: "(of_int p / of_int q :: rat) - of_int (p div q) = of_int (p mod q) / of_int q"
    using assms by (simp add: field_simps)
  have lt: "(of_int (p mod q) / of_int q :: rat) < 1 / 2 \<longleftrightarrow> 2 * (p mod q) < q"
  proof -
    have "(of_int (p mod q) / of_int q :: rat) < 1 / 2 \<longleftrightarrow>
            (of_int (2 * (p mod q)) :: rat) < of_int q"
      using assms by (simp add: field_simps)
    then show ?thesis by (simp only: of_int_less_iff)
  qed
  have gt: "(1 / 2 :: rat) < of_int (p mod q) / of_int q \<longleftrightarrow> q < 2 * (p mod q)"
  proof -
    have "(1 / 2 :: rat) < of_int (p mod q) / of_int q \<longleftrightarrow>
            (of_int q :: rat) < of_int (2 * (p mod q))"
      using assms by (simp add: field_simps)
    then show ?thesis by (simp only: of_int_less_iff)
  qed
  show ?thesis
    unfolding round_half_even_def Let_def fl d lt gt by simp
qed

lemma to_double_7_25: "to_double (7 / 25) = 5044031582654956 / 2 ^ 54"
proof -
  have "to_double (7 / 25) = of_int (round_half_even ((7 / 25) / 2 powi (- 2 - 52))) * 2 powi (- 2 - 52)"
    by (rule to_double_at) (simp_all add: power_int_minus_divide)
  also have "(7 / 25 :: rat) / 2 powi (- 2 - 52) = 126100789566373888 / 25"
    by (simp add: power_int_minus_divide)
  also have "round_half_even (126100789566373888 / 25) = 5044031582654956"
    using round_half_even_div [of 25 126100789566373888] by simp
  finally show ?thesis by (simp add: power_int_minus_divide)
qed

lemma to_double_28: "to_double (5044031582654956 / 2 ^ 54 * 100) = 7881299347898369 / 2 ^ 48"
proof -
  have "to_double (5044031582654956 / 2 ^ 54 * 100)
          = of_int (round_half_even ((5044031582654956 / 2 ^ 54 * 100) / 2 powi (4 - 52)))
              * 2 powi (4 - 52)"
    by (rule to_double_at) (simp_all add: power_int_minus_divide)
  also have "(5044031582654956 / 2 ^ 54 * 100 :: rat) / 2 powi (4 - 52) = 31525197391593475 / 4"
    by (simp add: power_int_minus_divide)
  also have "round_half_even (31525197391593475 / 4) = 7881299347898369"
    using round_half_even_div [of 4 31525197391593475] by simp
  finally show ?thesis by (simp add: power_int_minus_divide)
qed

lemma to_double_2_3: "to_double (2 / 3) = 6004799503160661 / 2 ^ 53"
proof -
  have "to_double (2 / 3) = of_int (round_half_even ((2 / 3) / 2 powi (- 1 - 52))) * 2 powi (- 1 - 52)"
    by (rule to_double_at) (simp_all add: power_int_minus_divide)
  also have "(2 / 3 :: rat) / 2 powi (- 1 - 52) = 18014398509481984 / 3"
    by (simp add: power_int_minus_divide)
  also have "round_half_even (18014398509481984 / 3) = 6004799503160661"
    using round_half_even_div [of 3 18014398509481984] by simp
  finally show ?thesis by (simp add: power_int_minus_divide)
qed

lemma to_double_66: "to_double (6004799503160661 / 2 ^ 53 * 100) = 4691249611844266 / 2 ^ 46"
proof -
  have "to_double (6004799503160661 / 2 ^ 53 * 100)
          = of_int (round_half_even ((6004799503160661 / 2 ^ 53 * 100) / 2 powi (6 - 52)))
              * 2 powi (6 - 52)"
    by (rule to_double_at) (simp_all add: power_int_minus_divide)
  also have "(6004799503160661 / 2 ^ 53 * 100 :: rat) / 2 powi (6 - 52) = 150119987579016525 / 32"
    by (simp add: power_int_minus_divide)
  also have "round_half_even (150119987579016525 / 32) = 4691249611844266"
    using round_half_even_div [of 32 150119987579016525] by simp
  finally show ?thesis by (simp add: power_int_minus_divide)
qed

text \<open>The error of the quotient of two counts times 100, computed in doubles.\<close>

lemma to_double_product_error:
  assumes "0 < x"
  shows "\<bar>to_double (to_double x * 100) - x * 100\<bar> \<le> x * 100 / 2 ^ 51"
proof -
  let ?a = "to_double x"
  have e1: "\<bar>?a - x\<bar> \<le> x / 2 ^ 53" by (rule to_double_error [OF assms])
  have lo: "x - x / 2 ^ 53 \<le> ?a" and hi: "?a \<le> x + x / 2 ^ 53" using e1 by linarith+
  have "0 < x - x / 2 ^ 53" using assms by (simp add: field_simps)
  with lo have apos: "0 < ?a" by linarith
  then have pos: "0 < ?a * 100" by simp
  have e2: "\<bar>to_double (?a * 100) - ?a * 100\<bar> \<le> ?a * 100 / 2 ^ 53"
    by (rule to_double_error [OF pos])
  have "\<bar>to_double (?a * 100) - x * 100\<bar>
          \<le> \<bar>to_double (?a * 100) - ?a * 100\<bar> + \<bar>?a * 100 - x * 100\<bar>"
    by linarith
  also have "\<dots> \<le> ?a * 100 / 2 ^ 53 + \<bar>?a - x\<bar> * 100"
    using e2 by (simp add: abs_if)
  also have "\<dots> \<le> (x + x / 2 ^ 53) * 100 / 2 ^ 53 + x / 2 ^ 53 * 100"
    using hi e1 by (intro add_mono) (simp_all add: divide_right_mono)
  also have "\<dots> \<le> x * 100 / 2 ^ 51"
    using assms by (simp add: field_simps)
  finally show ?thesis .
qed

lemma to_double_zero: "to_double 0 = 0"
  by (simp add: to_double_def)

lemma round_half_even_int: "round_half_even (of_int n) = n"
  by (simp add: round_half_even_def)

lemma to_double_1: "to_double 1 = 1"
proof -
  have "to_double 1 = of_int (round_half_even (1 / 2 powi (0 - 52))) * 2 powi (0 - 52)"
    by (rule to_double_at) (simp_all add: power_int_minus_divide)
  also have "(1 :: rat) / 2 powi (0 - 52) = of_int 4503599627370496"
    by (simp add: power_int_minus_divide)
  also have "round_half_even (of_int 4503599627370496) = 4503599627370496"
    by (rule round_half_even_int)
  finally show ?thesis by (simp add: power_int_minus_divide)
qed

lemma to_double_100: "to_double 100 = 100"
proof -
  have "to_double 100 = of_int (round_half_even (100 / 2 powi (6 - 52))) * 2 powi (6 - 52)"
    by (rule to_double_at) (simp_all add: power_int_minus_divide)
  also have "(100 :: rat) / 2 powi (6 - 52) = of_int 7036874417766400"
    by (simp add: power_int_minus_divide)
  also have "round_half_even (of_int 7036874417766400) = 7036874417766400"
    by (rule round_half_even_int)
  finally show ?thesis by (simp add: power_int_minus_divide)
qed

lemma percentage_error:
  "\<bar>float_mul (float_div (int c) (int n)) 100 - 100 * of_nat c / of_nat n\<bar>
     \<le> 100 * of_nat c / of_nat n / 2 ^ 51"
proof (cases "0 < c \<and> 0 < n")
  case True
  then have "(0::rat) < of_nat c / of_nat n" by simp
  from to_double_product_error [OF this] show ?thesis
    by (simp add: float_mul_def float_div_def mult.commute)
next
  case False
  then show ?thesis
    by (auto simp: float_mul_def float_div_def to_double_zero)
qed

section \<open>Properties of the chat history tracker\<close>

lemma get_add_same:
  "get_chat_history (add_to_chat_history h u r c) u =
     slice_last 20 (get_chat_history h u @ [\<lparr>role = r, content = c\<rparr>])"
  by (simp add: add_to_chat_history_def get_chat_history_def slice_last_def Let_def
           split: option.splits)

lemma get_add_other:
  "v \<noteq> u \<Longrightarrow> get_chat_history (add_to_chat_history h v r c) u = get_chat_history h u"
  by (simp add: add_to_chat_history_def get_chat_history_def Let_def split: option.splits)

lemma slice_last_length: "length (slice_last n xs) \<le> n"
  by (simp add: slice_last_def)

lemma slice_last_absorb:
  "slice_last n (slice_last n xs @ ys) = slice_last n (xs @ ys)"
proof (cases "length xs \<le> n")
  case True
  then show ?thesis by (simp add: slice_last_def)
next
  case False
  then have "length xs - n + length ys = length xs + length ys - n"
    and "n + length ys - n = length ys"
    and "length xs + length ys - n - length xs = length ys - n"
    by arith+
  with False show ?thesis by (simp add: slice_last_def add.commute)
qed

lemma append_all_get:
  "length (get_chat_history h u) \<le> 20 \<Longrightarrow>
   get_chat_history (append_all h ops) u =
     slice_last 20 (get_chat_history h u @ messages_of u ops)"
proof (induction ops arbitrary: h)
  case Nil
  then show ?case by (simp add: slice_last_def)
next
  case (Cons op ops)
  obtain v r c where op: "op = (v, r, c)" by (cases op) auto
  show ?case
  proof (cases "v = u")
    case True
    let ?h = "add_to_chat_history h u r c"
    let ?m = "\<lparr>role = r, content = c\<rparr>"
    have len: "length (get_chat_history ?h u) \<le> 20"
      by (simp add: get_add_same slice_last_length)
    have "get_chat_history (append_all ?h ops) u =
            slice_last 20 (slice_last 20 (get_chat_history h u @ [?m]) @ messages_of u ops)"
      using Cons.IH [OF len] by (simp add: get_add_same)
    also have "\<dots> = slice_last 20 ((get_chat_history h u @ [?m]) @ messages_of u ops)"
      by (rule slice_last_absorb)
    finally show ?thesis using True op by simp
  next
    case False
    have "length (get_chat_history (add_to_chat_history h v r c) u) \<le> 20"
      using False Cons.prems by (simp add: get_add_other)
    from Cons.IH [OF this] show ?thesis using False op by (simp add: get_add_other)
  qed
qed

text \<open>
  Claim C9. The transcript of a user never exceeds 20 entries: whatever the store
  held before, after an append the user's transcript has at most 20 entries; and
  starting from the empty store of the module, after any sequence of appends the
  transcript of every user is the last 20 of the messages appended for that user,
  in the order they were appended (the oldest ones are the ones dropped).
\<close>

theorem chat_history_capped:
  "length (get_chat_history (add_to_chat_history h u r c) u) \<le> 20 \<and>
   get_chat_history (append_all Map.empty ops) u = slice_last 20 (messages_of u ops) \<and>
   length (get_chat_history (append_all Map.empty ops) u) \<le> 20"
proof -
  have e: "length (get_chat_history Map.empty u) \<le> 20"
    by (simp add: get_chat_history_def)
  have "get_chat_history (append_all Map.empty ops) u = slice_last 20 (messages_of u ops)"
    using append_all_get [OF e, of ops] by (simp add: get_chat_history_def)
  then show ?thesis
    by (simp add: get_add_same slice_last_length)
qed

section \<open>Properties of the exercise manager\<close>

subsection \<open>Batches\<close>

text \<open>The loop keeps exactly the usable elements, and builds from each the exercise it
  stands for: an element with another number of options, without one of the four
  letters in its answer text, or without question or explanation is dropped.\<close>

lemma normalize_answer_letter:
  "normalize_answer t = (case answer_letter t of None \<Rightarrow> [] | Some l \<Rightarrow> l)"
  by (induction t) (auto simp: normalize_answer_def answer_letter_def)

lemma answer_letter_cases:
  "answer_letter t = None \<or> answer_letter t = Some ''A'' \<or> answer_letter t = Some ''B'' \<or>
   answer_letter t = Some ''C'' \<or> answer_letter t = Some ''D''"
  by (induction t) (auto simp: answer_letter_def)

lemma normalize_answer_valid:
  "normalize_answer t \<in> set [''A'', ''B'', ''C'', ''D''] \<longleftrightarrow> answer_letter t \<noteq> None"
  using answer_letter_cases [of t] by (auto simp: normalize_answer_letter)

lemma make_exercise_usable:
  "make_exercise answer_text subj u i d =
     (if usable answer_text d then Some (built_exercise answer_text subj u i d) else None)"
proof (cases d)
  case (JObj kvs)
  show ?thesis
    unfolding JObj make_exercise.simps Let_def normalize_answer_valid
    by (auto simp: usable_def built_exercise_def four_options_def fields_of_def answer_field_def
          new_exercise_def normalize_answer_letter
          split: option.splits json.splits)
qed (simp_all add: usable_def four_options_def fields_of_def dict_get_def)

lemma collect_exercises_expected:
  "collect_exercises answer_text subj u i xs = expected_batch answer_text subj u i xs"
  by (induction xs arbitrary: i) (simp_all add: expected_batch_def make_exercise_usable)

lemma built_exercise_well_formed:
  "usable answer_text d \<Longrightarrow> well_formed_item (built_exercise answer_text subj u i d)"
  using answer_letter_cases [of "answer_text (answer_field d)"]
  by (auto simp: usable_def well_formed_item_def built_exercise_def four_options_def
           split: option.splits json.splits)

lemma expected_batch_well_formed:
  "list_all well_formed_item (expected_batch answer_text subj u i xs)"
  by (auto simp: expected_batch_def list_all_iff built_exercise_well_formed)

lemma expected_batch_length:
  "length (expected_batch answer_text subj u i xs) = length (filter (usable answer_text) xs)"
  by (induction xs arbitrary: i) (simp_all add: expected_batch_def)

lemma expected_batch_empty:
  "expected_batch answer_text subj u i xs = [] \<longleftrightarrow> \<not> list_ex (usable answer_text) xs"
proof -
  have "expected_batch answer_text subj u i xs = [] \<longleftrightarrow>
          length (filter (usable answer_text) xs) = 0"
    using expected_batch_length [of answer_text subj u i xs] by (metis length_0_conv)
  then show ?thesis by (auto simp: list_ex_iff filter_empty_conv)
qed

lemma vocabulary_fallback_ok:
  "length (vocabulary_fallback s) = 5 \<and> list_all well_formed_item (vocabulary_fallback s)"
  by (simp add: vocabulary_fallback_def well_formed_item_def new_exercise_def)

lemma grammar_fallback_ok:
  "length (grammar_fallback s) = 5 \<and> list_all well_formed_item (grammar_fallback s)"
  by (simp add: grammar_fallback_def well_formed_item_def new_exercise_def)

lemma fallback_ok:
  "subj = ''vocabulary'' \<or> subj = ''grammar'' \<Longrightarrow>
   length (get_fallback_exercises subj) = 5 \<and>
   list_all well_formed_item (get_fallback_exercises subj)"
  using vocabulary_fallback_ok grammar_fallback_ok
  by (auto simp: get_fallback_exercises_def)

lemma generate_cases:
  "generate_exercises answer_text subj u response = get_fallback_exercises subj \<or>
   (\<exists>v xs. response = Parsed v \<and> exercises_list_of v = Some xs \<and>
       expected_batch answer_text subj u 0 xs \<noteq> [] \<and>
       generate_exercises answer_text subj u response = expected_batch answer_text subj u 0 xs)"
  by (auto simp: generate_exercises_def collect_exercises_expected Let_def
           split: llm_outcome.splits option.splits)

lemmas session_eval =
  start_exercise_session_def generate_exercises_def exercises_list_of_def dict_get_def
  normalize_answer_def ascii_answer_text_def py_upper_def py_strip_def py_str_def is_space_def
  upper_char_def lower_letters_def upper_letters_def new_exercise_def Let_def sample_item_def
  sample_uuid_def

lemma str_int_small:
  "str_int 0 = ''0''" "str_int 1 = ''1''" "str_int 2 = ''2''" "str_int 3 = ''3''"
  "str_int 4 = ''4''" "str_int 7 = ''7''" "str_int (- 1) = ''-1''"
  by (simp_all add: str_int_def str_nat.simps digit_chars_def)

text \<open>
  Claim C1, as the code has it. For the subjects vocabulary and grammar, the batch
  \<open>start_exercise_session\<close> hands out is never empty, each of its items has exactly
  four options and a correct answer letter among A, B, C, D, and it is the batch
  stored for the user. The fallback batch has exactly five items, and it is the
  batch handed out when the call raises, the response is empty or holds no JSON,
  the parsed value has the wrong shape, or no element of the list is usable.
  Otherwise the batch holds one exercise for each usable element of the list, in
  order, and nothing for the other elements: between one and as many items as the
  list is long, not necessarily five.
\<close>

theorem start_exercise_session_batch:
  "subj = ''vocabulary'' \<or> subj = ''grammar'' \<Longrightarrow>
   start_exercise_session answer_text m u subj new_uuid response = (batch, m') \<Longrightarrow>
   batch \<noteq> [] \<and> list_all well_formed_item batch \<and> active_exercises m' u = Some batch \<and>
   length (get_fallback_exercises subj) = 5 \<and>
   (case response of
      Parsed v \<Rightarrow>
        (case exercises_list_of v of
           None \<Rightarrow> batch = get_fallback_exercises subj
         | Some xs \<Rightarrow>
             if list_ex (usable answer_text) xs
             then batch = expected_batch answer_text subj u 0 xs \<and>
                  length batch = length (filter (usable answer_text) xs) \<and>
                  length batch \<le> length xs
             else batch = get_fallback_exercises subj)
    | _ \<Rightarrow> batch = get_fallback_exercises subj)"
proof -
  assume subj: "subj = ''vocabulary'' \<or> subj = ''grammar''"
    and run: "start_exercise_session answer_text m u subj new_uuid response = (batch, m')"
  let ?fb = "get_fallback_exercises subj"
  let ?g = "generate_exercises answer_text subj u response"
  have fb: "length ?fb = 5" "list_all well_formed_item ?fb"
    using fallback_ok [OF subj] by simp_all
  then have fb_ne: "?fb \<noteq> []" by auto
  have g_ne: "?g \<noteq> []"
    using generate_cases [of answer_text subj u response] fb_ne by auto
  have batch: "batch = ?g" and stored: "active_exercises m' u = Some batch"
    using run g_ne by (auto simp: start_exercise_session_def Let_def)
  have wf: "list_all well_formed_item batch"
    using generate_cases [of answer_text subj u response] fb(2)
      expected_batch_well_formed [of answer_text subj u 0]
    by (auto simp: batch)
  have shape: "(case response of
      Parsed v \<Rightarrow>
        (case exercises_list_of v of
           None \<Rightarrow> batch = ?fb
         | Some xs \<Rightarrow>
             if list_ex (usable answer_text) xs
             then batch = expected_batch answer_text subj u 0 xs \<and>
                  length batch = length (filter (usable answer_text) xs) \<and>
                  length batch \<le> length xs
             else batch = ?fb)
    | _ \<Rightarrow> batch = ?fb)"
  proof (cases response)
    case (Parsed v)
    show ?thesis
    proof (cases "exercises_list_of v")
      case None
      with Parsed show ?thesis by (simp add: batch generate_exercises_def)
    next
      case (Some xs)
      have g: "?g = (if list_ex (usable answer_text) xs
                     then expected_batch answer_text subj u 0 xs else ?fb)"
        using expected_batch_empty [of answer_text subj u 0 xs]
        by (simp add: Parsed Some generate_exercises_def collect_exercises_expected Let_def)
      have "length (filter (usable answer_text) xs) \<le> length xs"
        by (rule length_filter_le)
      with Parsed Some g show ?thesis
        by (simp add: batch expected_batch_length)
    qed
  qed (simp_all add: batch generate_exercises_def)
  show ?thesis using g_ne batch stored wf fb(1) shape by simp
qed

text \<open>
  A response of six elements: the answer \<open>c\<close>; no object; three options only; the
  answer \<open>E\<close>; the answer \<open>(B)\<close>; no explanation. The first and the fifth are usable,
  and the batch holds their two exercises, with the answers C and B and the
  positions 0 and 4 in the ids.
\<close>

theorem start_exercise_session_batch_witness:
  "map (\<lambda>e. (exercise_id e, correct_answer e, length (options e)))
     (fst (start_exercise_session ascii_answer_text new_exercise_manager 7 ''grammar'' sample_uuid
             (Parsed (JArr [sample_item 4 ''c'', JNull, sample_item 3 ''A'', sample_item 4 ''E'',
                            sample_item 4 ''(B)'',
                            JObj [(''question'', JStr ''Pick one''),
                                  (''options'', JArr [JNull, JNull, JNull, JNull]),
                                  (''correct_answer'', JStr ''D'')]]))))
     = [(''grammar_7_0'', ''C'', 4), (''grammar_7_4'', ''B'', 4)]"
  using start_exercise_session_batch [of "''grammar''" ascii_answer_text new_exercise_manager 7
          sample_uuid
          "Parsed (JArr [sample_item 4 ''c'', JNull, sample_item 3 ''A'', sample_item 4 ''E'',
                            sample_item 4 ''(B)'',
                            JObj [(''question'', JStr ''Pick one''),
                                  (''options'', JArr [JNull, JNull, JNull, JNull]),
                                  (''correct_answer'', JStr ''D'')]])"
          "fst (start_exercise_session ascii_answer_text new_exercise_manager 7 ''grammar''
             sample_uuid
             (Parsed (JArr [sample_item 4 ''c'', JNull, sample_item 3 ''A'', sample_item 4 ''E'',
                            sample_item 4 ''(B)'',
                            JObj [(''question'', JStr ''Pick one''),
                                  (''options'', JArr [JNull, JNull, JNull, JNull]),
                                  (''correct_answer'', JStr ''D'')]])))"
          "snd (start_exercise_session ascii_answer_text new_exercise_manager 7 ''grammar''
             sample_uuid
             (Parsed (JArr [sample_item 4 ''c'', JNull, sample_item 3 ''A'', sample_item 4 ''E'',
                            sample_item 4 ''(B)'',
                            JObj [(''question'', JStr ''Pick one''),
                                  (''options'', JArr [JNull, JNull, JNull, JNull]),
                                  (''correct_answer'', JStr ''D'')]])))"]
  by (simp add: exercises_list_of_def expected_batch_def usable_def built_exercise_def
        four_options_def fields_of_def answer_field_def answer_letter_def dict_get_def
        ascii_answer_text_def py_upper_def py_strip_def py_str_def is_space_def upper_char_def
        lower_letters_def upper_letters_def sample_item_def enumerate_eq_zip str_int_small)

text \<open>
  The claim as stated fails: a response of two elements, the second with three
  options only, gives a batch of one exercise, which is neither five items long nor
  the fallback batch.
\<close>

theorem short_batch_counterexample:
  "length (fst (start_exercise_session ascii_answer_text new_exercise_manager 7 ''vocabulary''
             sample_uuid (Parsed (JArr [sample_item 4 ''A'', sample_item 3 ''B''])))) \<noteq> 5 \<and>
   fst (start_exercise_session ascii_answer_text new_exercise_manager 7 ''vocabulary''
             sample_uuid (Parsed (JArr [sample_item 4 ''A'', sample_item 3 ''B''])))
     \<noteq> get_fallback_exercises ''vocabulary''"
  by (simp add: session_eval get_fallback_exercises_def vocabulary_fallback_def)

subsection \<open>The sample session\<close>

lemma sample_session_fields:
  "active_exercises sample_session 7 = Some (vocabulary_fallback ''vocabulary'')"
  "user_answers sample_session 7 = Some Map.empty"
  "session_ids sample_session 7 = Some sample_uuid"
  "user_current_index sample_session 7 = None"
  by (simp_all add: sample_session_def start_exercise_session_def generate_exercises_def
        get_fallback_exercises_def new_exercise_manager_def Let_def vocabulary_fallback_def)

lemma finished_session_fields:
  "session_ids finished_session 7 = None"
  "active_exercises finished_session 7 = None"
  by (simp_all add: finished_session_def finish_exercise_session_def sample_session_fields
        Let_def split: prod.splits)

lemma py_int_samples: "py_int ''-1'' = Some (- 1)" "py_int ''0'' = Some 0"
  by (simp_all add: py_int_def py_strip_def is_space_def parse_digits_def is_digit_def
        digit_chars_def digit_value_def)

lemma vocabulary_fallback_length: "length (vocabulary_fallback s) = 5"
  by (simp add: vocabulary_fallback_def)

lemma vocabulary_fallback_index:
  "py_index (vocabulary_fallback s) (- 1) = Some (vocabulary_fallback s ! 4)"
  "py_index (vocabulary_fallback s) 0 = Some (vocabulary_fallback s ! 0)"
  by (simp_all add: py_index_def vocabulary_fallback_length)

lemma vocabulary_fallback_subject: "subject (vocabulary_fallback s ! 4) = s"
  by (simp add: vocabulary_fallback_def new_exercise_def)

subsection \<open>Submitting answers\<close>

lemma get_short_existing:
  "session_ids m u = Some sid \<Longrightarrow> sid \<noteq> [] \<Longrightarrow>
   get_short_session_id m u new_uuid = (take 6 sid, m)"
  by (simp add: get_short_session_id_def)

text \<open>A submission for an exercise id the answers already hold is ignored.\<close>

lemma answer_exercise_duplicate:
  assumes "session_ids m u = Some sid" "sid \<noteq> []" "session = take 6 sid"
    and "active_exercises m u = Some exs" "i < int (length exs)" "py_index exs i = Some e"
    and "user_answers m u = Some ua" "ua (short_exercise_id (subject e) u i) = Some a"
  shows "answer_exercise m u session i ans new_uuid = (DuplicateIgnored, m)"
  using assms by (simp add: answer_exercise_def get_short_existing Let_def)

text \<open>An index at or above the number of exercises is rejected, with no change.\<close>

lemma answer_exercise_above_range:
  assumes "session_ids m u = Some sid" "sid \<noteq> []" "session = take 6 sid"
    and "active_exercises m u = Some exs" "int (length exs) \<le> i"
  shows "answer_exercise m u session i ans new_uuid = (OutOfRange, m)"
  using assms by (simp add: answer_exercise_def get_short_existing Let_def)

text \<open>After an accepted answer that led to the next exercise, the same button pressed
  again is a duplicate and changes nothing, whatever letter it carries.\<close>

lemma answer_exercise_repeat:
  assumes "answer_exercise m u session i ans new_uuid = (ShowNext j e, m')"
  shows "answer_exercise m' u session i ans2 new_uuid2 = (DuplicateIgnored, m')"
proof -
  obtain cur m1 where g: "get_short_session_id m u new_uuid = (cur, m1)"
    by (cases "get_short_session_id m u new_uuid")
  from assms g have cur: "cur \<noteq> []" "session = cur"
    by (auto simp: answer_exercise_def Let_def split: if_splits)
  from g cur obtain sid where sid: "session_ids m1 u = Some sid" "sid \<noteq> []" "cur = take 6 sid"
    by (auto simp: get_short_session_id_def split: option.splits if_splits)
  from assms g cur obtain exs where exs: "active_exercises m1 u = Some exs"
    by (auto simp: answer_exercise_def Let_def split: if_splits option.splits)
  from assms g cur exs have rng: "i < int (length exs)"
    by (auto simp: answer_exercise_def Let_def split: if_splits option.splits)
  from assms g cur exs rng obtain ce where ce: "py_index exs i = Some ce"
    by (auto simp: answer_exercise_def Let_def split: if_splits option.splits)
  let ?eid = "short_exercise_id (subject ce) u i"
  from assms g cur exs rng ce
  have m': "m' = set_current_exercise_index (submit_answer m1 u ?eid ans) u (i + 1)"
    by (auto simp: answer_exercise_def Let_def
             split: if_splits option.splits prod.splits sum.splits)
  have 1: "session_ids m' u = Some sid" "active_exercises m' u = Some exs"
    using sid exs by (simp_all add: m' set_current_exercise_index_def submit_answer_def Let_def)
  obtain ua where ua: "user_answers m' u = Some ua" "ua ?eid = Some ans"
    by (simp add: m' set_current_exercise_index_def submit_answer_def Let_def)
  show ?thesis
    using answer_exercise_duplicate [OF 1(1) sid(2) _ 1(2) rng ce ua] cur sid(3) by simp
qed

text \<open>
  Claim C2. The duplicate half holds (the lemmas above). The range half does not:
  the handler compares the index with the number of exercises only, so the payload
  \<open>ex:3f2a1b:-1:A\<close>, for a user whose session of five exercises has the short id
  \<open>3f2a1b\<close>, is not rejected. Python reads \<open>exercises[-1]\<close> as the last exercise; the
  answer is stored under the key \<open>vocabulary_7_-1\<close>, the current index becomes 0 and
  the first exercise is shown again.
\<close>

theorem negative_index_accepted:
  "fst (handle_exercise_answer sample_session 7 ''ex:3f2a1b:-1:A'' other_uuid)
     = ShowNext 0 (vocabulary_fallback ''vocabulary'' ! 0) \<and>
   (case user_answers (snd (handle_exercise_answer sample_session 7 ''ex:3f2a1b:-1:A''
                              other_uuid)) 7 of
      None \<Rightarrow> None
    | Some ua \<Rightarrow> ua ''vocabulary_7_-1'') = Some ''A'' \<and>
   user_current_index (snd (handle_exercise_answer sample_session 7 ''ex:3f2a1b:-1:A''
                              other_uuid)) 7 = Some 0 \<and>
   snd (handle_exercise_answer sample_session 7 ''ex:3f2a1b:-1:A'' other_uuid) \<noteq> sample_session"
proof -
  have run: "handle_exercise_answer sample_session 7 ''ex:3f2a1b:-1:A'' other_uuid =
     (ShowNext 0 (vocabulary_fallback ''vocabulary'' ! 0),
      set_current_exercise_index (submit_answer sample_session 7 ''vocabulary_7_-1'' ''A'') 7 0)"
    by (simp add: handle_exercise_answer_def answer_exercise_def py_int_samples
          get_short_session_id_def sample_session_fields sample_uuid_def
          vocabulary_fallback_index vocabulary_fallback_length vocabulary_fallback_subject
          short_exercise_id_def str_int_small Let_def)
  have "user_current_index sample_session 7 \<noteq>
        user_current_index (set_current_exercise_index
          (submit_answer sample_session 7 ''vocabulary_7_-1'' ''A'') 7 0) 7"
    by (simp add: sample_session_fields set_current_exercise_index_def submit_answer_def)
  then have "set_current_exercise_index
          (submit_answer sample_session 7 ''vocabulary_7_-1'' ''A'') 7 0 \<noteq> sample_session"
    by metis
  then show ?thesis
    by (simp add: run set_current_exercise_index_def submit_answer_def sample_session_fields)
qed

text \<open>In particular the payload is not answered with the out-of-range message, and an
  answer is on record afterwards.\<close>

theorem negative_index_accepted_witness:
  "fst (handle_exercise_answer sample_session 7 ''ex:3f2a1b:-1:A'' other_uuid) \<noteq> OutOfRange \<and>
   user_answers (snd (handle_exercise_answer sample_session 7 ''ex:3f2a1b:-1:A'' other_uuid)) 7
     \<noteq> user_answers sample_session 7"
  using negative_index_accepted
  by (auto simp: sample_session_fields split: option.splits)

subsection \<open>Stale callbacks\<close>

text \<open>
  Claim C3, as the code has it. A callback \<open>ex:session:index:letter\<close> with a readable
  index whose session field differs from the user's short session id is rejected as
  stale; the exercises, the answers, the current index and the stored results of
  every user stay as they were. The session ids stay as they were too when the user
  has one; when the user has none (or an empty one) the check itself stores a new
  one, against which the callback is compared.
\<close>

theorem stale_callback_rejected:
  assumes "py_split (CHR '':'') data = [''ex'', session, idx, ans]"
    and "py_int idx = Some i"
    and "session \<noteq> take 6 (case session_ids m u of
                              None \<Rightarrow> new_uuid
                            | Some t \<Rightarrow> if t \<noteq> [] then t else new_uuid)"
    and "handle_exercise_answer m u data new_uuid = (out, m')"
  shows "out = StaleSession \<and>
         active_exercises m' = active_exercises m \<and> user_answers m' = user_answers m \<and>
         user_current_index m' = user_current_index m \<and>
         exercise_results m' = exercise_results m \<and>
         (case session_ids m u of
            None \<Rightarrow> session_ids m' = (session_ids m)(u \<mapsto> new_uuid)
          | Some t \<Rightarrow> if t \<noteq> [] then m' = m
                      else session_ids m' = (session_ids m)(u \<mapsto> new_uuid))"
  using assms
  by (auto simp: handle_exercise_answer_def answer_exercise_def get_short_session_id_def Let_def
           split: option.splits if_splits)

theorem stale_callback_rejected_witness:
  "fst (handle_exercise_answer sample_session 7 ''ex:zzzzzz:0:A'' other_uuid) = StaleSession \<and>
   snd (handle_exercise_answer sample_session 7 ''ex:zzzzzz:0:A'' other_uuid) = sample_session"
proof -
  have sp: "py_split (CHR '':'') ''ex:zzzzzz:0:A'' = [''ex'', ''zzzzzz'', ''0'', ''A'']"
    by simp
  have ne: "''zzzzzz'' \<noteq> take 6 (case session_ids sample_session 7 of
                              None \<Rightarrow> other_uuid
                            | Some t \<Rightarrow> if t \<noteq> [] then t else other_uuid)"
    by (simp add: sample_session_fields sample_uuid_def)
  show ?thesis
    using stale_callback_rejected [OF sp py_int_samples(2) ne surjective_pairing]
    by (simp add: sample_session_fields sample_uuid_def)
qed

text \<open>
  The claim as stated fails for a callback that arrives after its session has been
  finished: the user has no session id then, the check stores a new one, and the
  session ids are no longer what they were.
\<close>

theorem stale_callback_counterexample:
  "fst (handle_exercise_answer finished_session 7 ''ex:3f2a1b:0:A'' other_uuid) = StaleSession \<and>
   session_ids finished_session 7 = None \<and>
   session_ids (snd (handle_exercise_answer finished_session 7 ''ex:3f2a1b:0:A'' other_uuid)) 7
     = Some other_uuid \<and>
   snd (handle_exercise_answer finished_session 7 ''ex:3f2a1b:0:A'' other_uuid)
     \<noteq> finished_session"
proof -
  have run: "handle_exercise_answer finished_session 7 ''ex:3f2a1b:0:A'' other_uuid =
      (StaleSession,
       finished_session\<lparr>session_ids := (session_ids finished_session)(7 \<mapsto> other_uuid)\<rparr>)"
    by (simp add: handle_exercise_answer_def answer_exercise_def get_short_session_id_def
          py_int_samples finished_session_fields other_uuid_def Let_def)
  have "session_ids (finished_session\<lparr>session_ids :=
            (session_ids finished_session)(7 \<mapsto> other_uuid)\<rparr>) 7
          \<noteq> session_ids finished_session 7"
    by (simp add: finished_session_fields)
  then have "finished_session\<lparr>session_ids := (session_ids finished_session)(7 \<mapsto> other_uuid)\<rparr>
               \<noteq> finished_session"
    by metis
  then show ?thesis by (simp add: run finished_session_fields)
qed

subsection \<open>Finishing a session\<close>

lemma score_exercises_eq:
  "score_exercises stored es rs c =
     (rs @ map (result_of stored) es,
      c + length (filter res_is_correct (map (result_of stored) es)))"
  by (induction es arbitrary: rs c) (simp_all add: Let_def result_of_def answer_given_def)

lemma level_of_bands:
  "(level_of p = Excellent \<longleftrightarrow> 80 \<le> p) \<and>
   (level_of p = Good \<longleftrightarrow> 60 \<le> p \<and> p < 80) \<and>
   (level_of p = Satisfactory \<longleftrightarrow> 40 \<le> p \<and> p < 60) \<and>
   (level_of p = NeedsImprovement \<longleftrightarrow> p < 40)"
  by (auto simp: level_of_def)

text \<open>
  What \<open>finish_exercise_session\<close> does by itself. For a user without exercises it
  returns the no-session error and changes nothing. For a user with exercises it
  returns one result for each exercise, in order, whose correctness is the
  comparison of the upper-cased answer stored under the id of the exercise (the
  empty string when there is none) with the upper-cased correct answer; the number
  of correct results; the percentage; the level by the bands at 80, 60 and 40; and
  afterwards the user has no exercises, no answers and no session id, and the
  results are stored.
\<close>

lemma finish_exercise_session_spec:
  "(active_exercises m u = None \<longrightarrow>
      finish_exercise_session m u = (Inl NoActiveExerciseSession, m)) \<and>
   (\<forall>exs. active_exercises m u = Some exs \<longrightarrow>
      (\<exists>r m'. finish_exercise_session m u = (Inr r, m') \<and>
         results r =
           map (result_of (case user_answers m u of None \<Rightarrow> Map.empty | Some a \<Rightarrow> a)) exs \<and>
         total_questions r = length exs \<and>
         correct_answers r = length (filter res_is_correct (results r)) \<and>
         percentage r = exercise_percentage (correct_answers r) (total_questions r) \<and>
         \<bar>percentage r - 100 * of_nat (correct_answers r) / of_nat (total_questions r)\<bar>
           \<le> 100 * of_nat (correct_answers r) / of_nat (total_questions r) / 2 ^ 51 \<and>
         (level r = Excellent \<longleftrightarrow> 80 \<le> percentage r) \<and>
         (level r = Good \<longleftrightarrow> 60 \<le> percentage r \<and> percentage r < 80) \<and>
         (level r = Satisfactory \<longleftrightarrow> 40 \<le> percentage r \<and> percentage r < 60) \<and>
         (level r = NeedsImprovement \<longleftrightarrow> percentage r < 40) \<and>
         active_exercises m' u = None \<and> user_answers m' u = None \<and> session_ids m' u = None \<and>
         exercise_results m' u = Some (results r)))"
proof (intro conjI allI impI)
  assume "active_exercises m u = None"
  then show "finish_exercise_session m u = (Inl NoActiveExerciseSession, m)"
    by (simp add: finish_exercise_session_def)
next
  fix exs assume a: "active_exercises m u = Some exs"
  let ?ans = "case user_answers m u of None \<Rightarrow> Map.empty | Some a \<Rightarrow> a"
  let ?rs = "map (result_of ?ans) exs"
  let ?c = "length (filter res_is_correct ?rs)"
  let ?p = "exercise_percentage ?c (length exs)"
  let ?r = "\<lparr>total_questions = length exs, correct_answers = ?c, percentage = ?p,
             level = level_of ?p, results = ?rs\<rparr>"
  let ?m = "m\<lparr>exercise_results := (exercise_results m)(u \<mapsto> ?rs),
                active_exercises := (active_exercises m)(u := None),
                user_answers := (user_answers m)(u := None),
                session_ids := (session_ids m)(u := None)\<rparr>"
  have run: "finish_exercise_session m u = (Inr ?r, ?m)"
    using a by (simp add: finish_exercise_session_def score_exercises_eq Let_def)
  have p: "\<bar>?p - 100 * of_nat ?c / of_nat (length exs)\<bar>
             \<le> 100 * of_nat ?c / of_nat (length exs) / 2 ^ 51"
    using percentage_error [of ?c "length exs"]
    by (simp add: exercise_percentage_def)
  show "\<exists>r m'. finish_exercise_session m u = (Inr r, m') \<and>
         results r = map (result_of ?ans) exs \<and>
         total_questions r = length exs \<and>
         correct_answers r = length (filter res_is_correct (results r)) \<and>
         percentage r = exercise_percentage (correct_answers r) (total_questions r) \<and>
         \<bar>percentage r - 100 * of_nat (correct_answers r) / of_nat (total_questions r)\<bar>
           \<le> 100 * of_nat (correct_answers r) / of_nat (total_questions r) / 2 ^ 51 \<and>
         (level r = Excellent \<longleftrightarrow> 80 \<le> percentage r) \<and>
         (level r = Good \<longleftrightarrow> 60 \<le> percentage r \<and> percentage r < 80) \<and>
         (level r = Satisfactory \<longleftrightarrow> 40 \<le> percentage r \<and> percentage r < 60) \<and>
         (level r = NeedsImprovement \<longleftrightarrow> percentage r < 40) \<and>
         active_exercises m' u = None \<and> user_answers m' u = None \<and> session_ids m' u = None \<and>
         exercise_results m' u = Some (results r)"
    apply (rule exI [of _ ?r], rule exI [of _ ?m])
    using level_of_bands [of ?p] p
    apply (simp add: run)
    done
qed

text \<open>The comparison ignores the case of the letters: the answer \<open>b\<close> stored under the
  id of the fourth fallback exercise, whose correct answer is \<open>B\<close>, counts as right,
  and the answer \<open>a\<close> stored there does not.\<close>

lemma finish_counts_lower_case:
  "correct_answers (projr (fst (finish_exercise_session
      (submit_answer sample_session 7 ''vocabulary_fallback_4'' ''b'') 7))) = 1"
  "correct_answers (projr (fst (finish_exercise_session
      (submit_answer sample_session 7 ''vocabulary_fallback_4'' ''a'') 7))) = 0"
  by (simp_all add: finish_exercise_session_def submit_answer_def sample_session_fields
        vocabulary_fallback_def new_exercise_def py_upper_def upper_char_def lower_letters_def
        upper_letters_def Let_def)

text \<open>With every right letter stored under the id of its exercise, all five count:
  100 per cent, the highest level.\<close>

lemma finish_answered_by_id:
  "\<exists>r m'. finish_exercise_session answered_by_id 7 = (Inr r, m') \<and>
      map res_user_answer (results r) = [''a'', ''a'', ''a'', ''b'', ''a''] \<and>
      map res_is_correct (results r) = [True, True, True, True, True] \<and>
      total_questions r = 5 \<and> correct_answers r = 5 \<and> percentage r = 100 \<and>
      level r = Excellent \<and> active_exercises m' 7 = None \<and> user_answers m' 7 = None \<and>
      session_ids m' 7 = None"
  by (simp add: answered_by_id_def finish_exercise_session_def submit_answer_def
        sample_session_fields vocabulary_fallback_def new_exercise_def py_upper_def
        upper_char_def lower_letters_def upper_letters_def exercise_percentage_def
        float_mul_def float_div_def to_double_1 to_double_100 level_of_def Let_def)

lemma py_int_indices:
  "py_int ''1'' = Some 1" "py_int ''2'' = Some 2" "py_int ''3'' = Some 3" "py_int ''4'' = Some 4"
  by (simp_all add: py_int_def py_strip_def is_space_def parse_digits_def is_digit_def
        digit_chars_def digit_value_def)

text \<open>
  Claim C4. The no-session error, the tiers and the clearing are as claimed (the
  lemma above), but the results of a session answered through the buttons are not
  the per-item correctness of the answers given. The handler stores an answer under
  the key \<open>subject_user_index\<close>, and \<open>finish_exercise_session\<close> looks it up under the
  id of the exercise, which for the fallback exercises is \<open>subject_fallback_n\<close>. User
  7 presses the right letter of each of the five fallback vocabulary exercises; each
  press is accepted, and the results shown after the last one hold no answer at all:
  0 correct of 5, 0 per cent, the lowest level.
\<close>

theorem fallback_answers_not_scored:
  "\<exists>r m'. press_buttons sample_session 7 right_buttons other_uuid =
             ([ShowNext 1 (vocabulary_fallback ''vocabulary'' ! 1),
               ShowNext 2 (vocabulary_fallback ''vocabulary'' ! 2),
               ShowNext 3 (vocabulary_fallback ''vocabulary'' ! 3),
               ShowNext 4 (vocabulary_fallback ''vocabulary'' ! 4),
               ShowResults r], m') \<and>
      map res_correct_answer (results r) = [''A'', ''A'', ''A'', ''B'', ''A''] \<and>
      map res_user_answer (results r) = [[], [], [], [], []] \<and>
      map res_is_correct (results r) = [False, False, False, False, False] \<and>
      total_questions r = 5 \<and> correct_answers r = 0 \<and> percentage r = 0 \<and>
      level r = NeedsImprovement"
  by (simp add: right_buttons_def handle_exercise_answer_def answer_exercise_def
        py_int_samples py_int_indices get_short_session_id_def sample_session_fields
        sample_uuid_def py_index_def vocabulary_fallback_def new_exercise_def
        short_exercise_id_def str_int_small submit_answer_def
        set_current_exercise_index_def reset_current_index_def finish_exercise_session_def
        exercise_percentage_def float_mul_def float_div_def to_double_zero level_of_def
        py_upper_def upper_char_def lower_letters_def upper_letters_def Let_def)

text \<open>The five answers were all right, and none is counted.\<close>

theorem fallback_answers_not_scored_witness:
  "\<exists>r. last (fst (press_buttons sample_session 7 right_buttons other_uuid)) = ShowResults r \<and>
       correct_answers r \<noteq> 5 \<and> \<not> list_ex res_is_correct (results r)"
  using fallback_answers_not_scored by (auto simp: list_ex_iff)

section \<open>Properties of the fixed test manager\<close>

subsection \<open>Answering\<close>

text \<open>
  Claim C6. For a user with a test, \<open>process_answer\<close> changes nothing when the
  cursor is at or past the number of questions. Otherwise it appends exactly one
  entry to the log, for the question under the cursor, with the submitted label and
  the question's correct answer; the score grows by one exactly when the two are
  equal; the cursor grows by exactly one; the questions stay.
\<close>

theorem process_answer_step:
  "active_tests tm u = Some t \<Longrightarrow>
   (length (questions t) \<le> current_question t \<longrightarrow> process_answer tm u ans = tm) \<and>
   (current_question t < length (questions t) \<longrightarrow>
      (\<exists>t' e. active_tests (process_answer tm u ans) u = Some t' \<and>
         answers t' = answers t @ [e] \<and>
         a_question_id e = q_id (questions t ! current_question t) \<and>
         a_user_answer e = ans \<and>
         a_correct_answer e = q_correct_answer (questions t ! current_question t) \<and>
         a_is_correct e = (ans = q_correct_answer (questions t ! current_question t)) \<and>
         score t' = (if ans = q_correct_answer (questions t ! current_question t)
                     then score t + 1 else score t) \<and>
         current_question t' = current_question t + 1 \<and>
         questions t' = questions t))"
  by (auto simp: process_answer_def Let_def)

lemma sample_tests_session:
  "active_tests sample_tests 7 =
     Some \<lparr>questions = [sample_question 1 ''reading'' ''a'', sample_question 2 ''reading'' ''b'',
                         sample_question 3 ''reading'' ''c''],
           current_question = 0, score = 0, answers = []\<rparr>"
  by (simp add: sample_tests_def start_test_for_user_def)

lemma infer_topic_reading: "infer_topic ''reading'' q e os = ''Reading''"
  by (simp add: infer_topic_def py_capitalize_def py_lower_def lower_char_def upper_char_def
        lower_letters_def upper_letters_def)

lemma answered_tests_session:
  "\<exists>t. active_tests answered_tests 7 = Some t \<and> current_question t = 3 \<and>
       length (questions t) = 3 \<and> score t = 2 \<and> length (answers t) = 3"
  by (simp add: answered_tests_def process_answer_def sample_tests_session Let_def get_or_def
        sample_question_def infer_topic_reading)

lemma answered_tests_state:
  "active_tests answered_tests 7 =
     Some \<lparr>questions = [sample_question 1 ''reading'' ''a'', sample_question 2 ''reading'' ''b'',
                         sample_question 3 ''reading'' ''c''],
           current_question = 3, score = 2,
           answers = [reading_entry 1 ''a'' ''a'', reading_entry 2 ''c'' ''b'',
                      reading_entry 3 ''c'' ''c'']\<rparr>"
  by (simp add: answered_tests_def process_answer_def sample_tests_session Let_def get_or_def
        sample_question_def infer_topic_reading reading_entry_def)

theorem process_answer_step_witness:
  "(\<exists>t'. active_tests (process_answer sample_tests 7 ''a'') 7 = Some t' \<and>
         length (answers t') = 1 \<and> score t' = 1 \<and> current_question t' = 1) \<and>
   process_answer answered_tests 7 ''d'' = answered_tests"
proof -
  have 1: "\<exists>t'. active_tests (process_answer sample_tests 7 ''a'') 7 = Some t' \<and>
         length (answers t') = 1 \<and> score t' = 1 \<and> current_question t' = 1"
    using process_answer_step [OF sample_tests_session, of "''a''"]
    by (auto simp: sample_question_def)
  obtain t where t: "active_tests answered_tests 7 = Some t" "current_question t = 3"
      "length (questions t) = 3"
    using answered_tests_session by blast
  have 2: "process_answer answered_tests 7 ''d'' = answered_tests"
    using process_answer_step [OF t(1), of "''d''"] t(2,3) by simp
  show ?thesis using 1 2 by blast
qed

subsection \<open>The report\<close>

lemma finish_test_report:
  "active_tests tm u = Some t \<Longrightarrow>
   \<exists>r tm'. finish_test tm u = (Some r, tm') \<and>
      tr_total_questions r = length (questions t) \<and> tr_score r = score t \<and>
      tr_percentage r = test_percentage (score t) (length (questions t))"
  by (auto simp: finish_test_def build_report_def Let_def split: prod.splits)

text \<open>On a bank whose questions all have the same right answer, a sequence of answers
  that fits into the test adds the number of its right answers to the score.\<close>

lemma answer_all_uniform:
  "active_tests tm u = Some t \<Longrightarrow> \<forall>q \<in> set (questions t). q_correct_answer q = right \<Longrightarrow>
   current_question t + length given \<le> length (questions t) \<Longrightarrow>
   \<exists>t'. active_tests (answer_all tm u given) u = Some t' \<and> questions t' = questions t \<and>
        score t' = score t + length (filter (\<lambda>a. a = right) given) \<and>
        current_question t' = current_question t + length given"
proof (induction given arbitrary: tm t)
  case Nil
  then show ?case by simp
next
  case (Cons a given)
  have lt: "current_question t < length (questions t)"
    using Cons.prems(3) by simp
  then have qa: "q_correct_answer (questions t ! current_question t) = right"
    using Cons.prems(2) by simp
  obtain t1 where t1: "active_tests (process_answer tm u a) u = Some t1"
    and q1: "questions t1 = questions t"
    and s1: "score t1 = (if a = right then score t + 1 else score t)"
    and c1: "current_question t1 = current_question t + 1"
    using Cons.prems(1) lt qa by (auto simp: process_answer_def Let_def)
  have all1: "\<forall>q \<in> set (questions t1). q_correct_answer q = right"
    using Cons.prems(2) by (simp add: q1)
  have fit1: "current_question t1 + length given \<le> length (questions t1)"
    using Cons.prems(3) by (simp add: q1 c1)
  from Cons.IH [OF t1 all1 fit1] obtain t' where
    "active_tests (answer_all (process_answer tm u a) u given) u = Some t'"
    "questions t' = questions t1"
    "score t' = score t1 + length (filter (\<lambda>a. a = right) given)"
    "current_question t' = current_question t1 + length given"
    by blast
  then show ?case by (simp add: q1 s1 c1)
qed

lemma long_tests_session:
  "\<exists>t. active_tests long_tests 7 = Some t \<and> length (questions t) = 25 \<and> score t = 7 \<and>
       current_question t = 25"
proof -
  let ?tm = "snd (start_test_for_user
               \<lparr>active_tests = Map.empty, test_results = Map.empty,
                fixed_test = Some long_bank\<rparr> 7)"
  let ?t = "\<lparr>questions = long_bank, current_question = 0, score = 0, answers = []\<rparr>"
  have start: "active_tests ?tm 7 = Some ?t"
    by (simp add: start_test_for_user_def)
  have len: "length long_bank = 25"
    by (simp add: long_bank_def)
  have same: "\<forall>q \<in> set (questions ?t). q_correct_answer q = ''a''"
    by (auto simp: long_bank_def sample_question_def)
  have fit: "current_question ?t + length (replicate 7 ''a'' @ replicate 18 ''b'')
               \<le> length (questions ?t)"
    by (simp add: len)
  from answer_all_uniform [OF start same fit] obtain t' where
    "active_tests long_tests 7 = Some t'" "questions t' = long_bank"
    "score t' = length (filter (\<lambda>a. a = ''a'') (replicate 7 ''a'' @ replicate 18 ''b''))"
    "current_question t' = length (replicate 7 ''a'' @ replicate 18 ''b'')"
    by (auto simp: long_tests_def)
  then show ?thesis by (simp add: len)
qed

text \<open>
  Claim C7, as the code has it. For a user with a test, \<open>finish_test\<close> reports the
  number of questions, the score, and a percentage that is 0 when there are no
  questions and otherwise the double \<open>(score / total) * 100\<close>: the quotient rounded
  to a double, times 100, rounded again. It is within the fraction \<open>2^-51\<close> of
  100 times the score divided by the number of questions, not always equal to it.
\<close>

theorem finish_test_percentage:
  "active_tests tm u = Some t \<Longrightarrow>
   (\<exists>r tm'. finish_test tm u = (Some r, tm') \<and>
      tr_total_questions r = length (questions t) \<and> tr_score r = score t \<and>
      (tr_total_questions r = 0 \<longrightarrow> tr_percentage r = 0) \<and>
      (tr_total_questions r > 0 \<longrightarrow>
         tr_percentage r =
           to_double (to_double (of_nat (tr_score r) / of_nat (tr_total_questions r)) * 100) \<and>
         \<bar>tr_percentage r - 100 * of_nat (tr_score r) / of_nat (tr_total_questions r)\<bar>
           \<le> 100 * of_nat (tr_score r) / of_nat (tr_total_questions r) / 2 ^ 51))"
proof -
  assume a: "active_tests tm u = Some t"
  from finish_test_report [OF a] obtain r tm' where
    run: "finish_test tm u = (Some r, tm')" and
    tq: "tr_total_questions r = length (questions t)" and sc: "tr_score r = score t" and
    pc: "tr_percentage r = test_percentage (score t) (length (questions t))"
    by blast
  have zero: "tr_total_questions r = 0 \<longrightarrow> tr_percentage r = 0"
    by (simp add: pc tq test_percentage_def)
  have pos: "tr_total_questions r > 0 \<longrightarrow>
         tr_percentage r =
           to_double (to_double (of_nat (tr_score r) / of_nat (tr_total_questions r)) * 100) \<and>
         \<bar>tr_percentage r - 100 * of_nat (tr_score r) / of_nat (tr_total_questions r)\<bar>
           \<le> 100 * of_nat (tr_score r) / of_nat (tr_total_questions r) / 2 ^ 51"
    using percentage_error [of "score t" "length (questions t)"]
    by (simp add: pc tq sc test_percentage_def float_mul_def float_div_def)
  show ?thesis
  proof (intro exI conjI)
    show "finish_test tm u = (Some r, tm')" by (rule run)
  qed (rule tq sc zero pos)+
qed

text \<open>Two of three right give the double 66.66666666666666, no questions give 0.\<close>

theorem finish_test_percentage_witness:
  "(\<exists>r tm'. finish_test answered_tests 7 = (Some r, tm') \<and>
      tr_percentage r = 4691249611844266 / 2 ^ 46) \<and>
   (\<exists>r tm'. finish_test (snd (start_test_for_user (no_tests\<lparr>fixed_test := Some []\<rparr>) 7)) 7
               = (Some r, tm') \<and> tr_percentage r = 0)"
proof -
  have p: "to_double (to_double (2 / 3) * 100) = 4691249611844266 / 2 ^ 46"
    by (simp only: to_double_2_3 to_double_66)
  have 1: "\<exists>r tm'. finish_test answered_tests 7 = (Some r, tm') \<and>
      tr_percentage r = 4691249611844266 / 2 ^ 46"
    using finish_test_percentage [OF answered_tests_state] p
    by auto
  have e: "active_tests (snd (start_test_for_user (no_tests\<lparr>fixed_test := Some []\<rparr>) 7)) 7
            = Some \<lparr>questions = [], current_question = 0, score = 0, answers = []\<rparr>"
    by (simp add: start_test_for_user_def no_tests_def)
  have 2: "\<exists>r tm'. finish_test (snd (start_test_for_user (no_tests\<lparr>fixed_test := Some []\<rparr>) 7)) 7
               = (Some r, tm') \<and> tr_percentage r = 0"
    using finish_test_percentage [OF e] by auto
  show ?thesis using 1 2 by blast
qed

text \<open>
  The claim as stated fails for a completed test of 25 questions with 7 right
  answers: 7 / 25 is not a double, the nearest one times 100 lies between two
  doubles above 28, and the percentage reported is 28.000000000000004.
\<close>

theorem finish_test_percentage_counterexample:
  "is_test_completed long_tests 7 \<and>
   (\<exists>r tm'. finish_test long_tests 7 = (Some r, tm') \<and>
      tr_total_questions r = 25 \<and> tr_score r = 7 \<and>
      tr_percentage r = 7881299347898369 / 2 ^ 48 \<and>
      tr_percentage r \<noteq> 100 * of_nat (tr_score r) / of_nat (tr_total_questions r))"
proof -
  from long_tests_session obtain t where t: "active_tests long_tests 7 = Some t"
    "length (questions t) = 25" "score t = 7" "current_question t = 25" by blast
  have fin: "is_test_completed long_tests 7"
    by (simp add: is_test_completed_def t)
  from finish_test_report [OF t(1)] obtain r tm' where
    run: "finish_test long_tests 7 = (Some r, tm')" and
    tq: "tr_total_questions r = 25" and sc: "tr_score r = 7" and
    pc: "tr_percentage r = test_percentage 7 25"
    by (auto simp: t)
  have p: "to_double (to_double (7 / 25) * 100) = 7881299347898369 / 2 ^ 48"
    by (simp only: to_double_7_25 to_double_28)
  have "test_percentage 7 25 = 7881299347898369 / 2 ^ 48"
    using p by (simp add: test_percentage_def float_mul_def float_div_def)
  with run tq sc pc fin show ?thesis by simp
qed

text \<open>From its start on, the score of a test is the number of correct entries of its
  log; so it is in the report of a finished test.\<close>

lemma start_consistent:
  "start_test_for_user tm uid = (True, tm') \<Longrightarrow>
   \<exists>t. active_tests tm' uid = Some t \<and> session_consistent t"
  by (auto simp: start_test_for_user_def session_consistent_def split: option.splits)

lemma process_answer_consistent:
  "active_tests tm uid = Some t \<Longrightarrow> session_consistent t \<Longrightarrow>
   \<exists>t'. active_tests (process_answer tm uid a) uid = Some t' \<and> session_consistent t'"
  by (auto simp: process_answer_def session_consistent_def Let_def)

lemma answer_all_consistent:
  "active_tests tm uid = Some t \<Longrightarrow> session_consistent t \<Longrightarrow>
   \<exists>t'. active_tests (answer_all tm uid as) uid = Some t' \<and> session_consistent t'"
proof (induction as arbitrary: tm t)
  case Nil
  then show ?case by simp
next
  case (Cons a as)
  from process_answer_consistent [OF Cons.prems, of a]
  obtain t1 where "active_tests (process_answer tm uid a) uid = Some t1" "session_consistent t1"
    by blast
  from Cons.IH [OF this] show ?case by simp
qed

lemma completed_test_score:
  assumes "start_test_for_user tm0 uid = (True, tm1)"
    and "finish_test (answer_all tm1 uid as) uid = (res, tm2)"
  shows "\<exists>r. res = Some r \<and> tr_score r = length (filter a_is_correct (tr_answers r)) \<and>
            length (tr_answers r) \<le> tr_total_questions r"
proof -
  from start_consistent [OF assms(1)] obtain t where "active_tests tm1 uid = Some t"
    "session_consistent t" by blast
  from answer_all_consistent [OF this, of as] obtain t' where
    t': "active_tests (answer_all tm1 uid as) uid = Some t'" "session_consistent t'" by blast
  with assms(2) show ?thesis
    by (auto simp: finish_test_def build_report_def session_consistent_def Let_def
             split: prod.splits)
qed

subsection \<open>Statistics by topic\<close>

lemma map_of_dict_set: "map_of (dict_set d k v) k' = (if k' = k then Some v else map_of d k')"
  by (induction d) auto

lemma keys_dict_set: "fst ` set (dict_set d k v) = insert k (fst ` set d)"
  by (induction d) force+

lemma distinct_dict_set: "distinct (map fst d) \<Longrightarrow> distinct (map fst (dict_set d k v))"
  by (induction d) (auto simp: keys_dict_set)

lemma map_of_count_answer:
  "map_of (count_answer stats key ok) k =
     (if k = key then Some \<lparr>total = total_of stats key + 1,
                             correct = correct_of stats key + (if ok then 1 else 0)\<rparr>
      else map_of stats k)"
  by (auto simp: count_answer_def map_of_dict_set total_of_def correct_of_def Let_def
           split: option.splits)

lemma distinct_count_answer:
  "distinct (map fst stats) \<Longrightarrow> distinct (map fst (count_answer stats key ok))"
  by (simp add: count_answer_def Let_def distinct_dict_set)

lemma collect_stats_topics:
  "map_of (snd (collect_stats entries sec tps)) k =
     (if topic_total entries k = 0 then map_of tps k
      else Some \<lparr>total = total_of tps k + topic_total entries k,
                 correct = correct_of tps k + topic_correct entries k\<rparr>)"
proof (induction entries arbitrary: sec tps)
  case Nil
  show ?case by (simp add: topic_total_def)
next
  case (Cons a entries)
  let ?tps = "count_answer tps (a_topic a) (a_is_correct a)"
  have t: "total_of ?tps k = total_of tps k + (if a_topic a = k then 1 else 0)"
    and c: "correct_of ?tps k = correct_of tps k + (if a_topic a = k \<and> a_is_correct a then 1 else 0)"
    by (auto simp: total_of_def correct_of_def map_of_count_answer split: option.splits)
  show ?case
    by (simp add: Cons.IH t c) (auto simp: topic_total_def topic_correct_def map_of_count_answer total_of_def correct_of_def
          filter_empty_conv)
qed

lemma collect_stats_distinct:
  "distinct (map fst tps) \<Longrightarrow> distinct (map fst (snd (collect_stats entries sec tps)))"
  by (induction entries arbitrary: sec tps) (simp_all add: distinct_count_answer)

lemma classify_topics_sets:
  "classify_topics stats st wk = (st', wk') \<Longrightarrow>
   set st' = set st \<union> {t. \<exists>s. (t, s) \<in> set stats \<and> is_strength s} \<and>
   set wk' = set wk \<union> {t. \<exists>s. (t, s) \<in> set stats \<and> is_weakness s}"
proof (induction stats st wk rule: classify_topics.induct)
  case (1 st wk)
  then show ?case by simp
next
  case (2 topic s rest st wk)
  show ?case
  proof (cases "total s > 0")
    case False
    with 2 show ?thesis by (auto simp: is_strength_def is_weakness_def)
  next
    case True
    let ?acc = "of_nat (correct s) / of_nat (total s) :: rat"
    consider (a) "?acc \<ge> 7 / 10" | (b) "\<not> ?acc \<ge> 7 / 10" "?acc \<le> 6 / 10"
      | (c) "\<not> ?acc \<ge> 7 / 10" "\<not> ?acc \<le> 6 / 10" by blast
    then show ?thesis
    proof cases
      case a
      then have "\<not> ?acc \<le> 6 / 10" by linarith
      then have nw: "\<not> is_weakness s" unfolding is_weakness_def by blast
      from a True have s: "is_strength s" unfolding is_strength_def by blast
      from "2.prems" True a have "classify_topics rest (st @ [topic]) wk = (st', wk')"
        by (simp add: Let_def)
      from "2.IH"(1) [OF True refl a this] s nw show ?thesis by auto
    next
      case b
      then have w: "is_weakness s" "\<not> is_strength s" using True
        unfolding is_weakness_def is_strength_def by blast+
      from "2.prems" True b have "classify_topics rest st (wk @ [topic]) = (st', wk')"
        by (simp add: Let_def)
      from "2.IH"(2) [OF True refl b this] w show ?thesis by auto
    next
      case c
      then have w: "\<not> is_weakness s" "\<not> is_strength s"
        unfolding is_weakness_def is_strength_def by blast+
      from "2.prems" True c have "classify_topics rest st wk = (st', wk')"
        by (simp add: Let_def)
      from "2.IH"(3) [OF True refl c this] w show ?thesis by auto
    qed
  qed
qed

text \<open>
  Claim C8. In the report of \<open>finish_test\<close>, a topic with at least one logged answer
  is among the strengths exactly when its accuracy (correct answers of the topic by
  answers of the topic) is at least 0.7, and among the weaknesses exactly when its
  accuracy is at most 0.6; a topic with an accuracy strictly between is in neither
  list.
\<close>

theorem finish_test_strengths_weaknesses:
  assumes "active_tests tm u = Some ts"
    and "finish_test tm u = (Some r, tm')"
    and "topic_total (answers ts) t > 0"
  shows "(t \<in> set (tr_strengths r) \<longleftrightarrow> topic_accuracy (answers ts) t \<ge> 7 / 10) \<and>
         (t \<in> set (tr_weaknesses r) \<longleftrightarrow> topic_accuracy (answers ts) t \<le> 6 / 10) \<and>
         (6 / 10 < topic_accuracy (answers ts) t \<and> topic_accuracy (answers ts) t < 7 / 10
            \<longrightarrow> t \<notin> set (tr_strengths r) \<and> t \<notin> set (tr_weaknesses r))"
proof -
  let ?log = "answers ts"
  obtain sec tps where cs: "collect_stats ?log [] [] = (sec, tps)"
    by (cases "collect_stats ?log [] []")
  obtain st wk where cl: "classify_topics tps [] [] = (st, wk)"
    by (cases "classify_topics tps [] []")
  have r: "tr_strengths r = st" "tr_weaknesses r = wk"
    using assms(1,2) cs cl by (auto simp: finish_test_def build_report_def Let_def)
  have tps: "tps = snd (collect_stats ?log [] [])" by (simp add: cs)
  have d: "distinct (map fst tps)"
    unfolding tps by (rule collect_stats_distinct) simp
  let ?s = "\<lparr>total = topic_total ?log t, correct = topic_correct ?log t\<rparr>"
  have m: "map_of tps t = Some ?s"
    using assms(3) by (simp add: tps collect_stats_topics total_of_def correct_of_def)
  have mem: "\<And>s. (t, s) \<in> set tps \<longleftrightarrow> s = ?s"
    using d m by (metis map_of_eq_Some_iff option.inject)
  have sets: "set st = {t. \<exists>s. (t, s) \<in> set tps \<and> is_strength s}"
             "set wk = {t. \<exists>s. (t, s) \<in> set tps \<and> is_weakness s}"
    using classify_topics_sets [OF cl] by auto
  have s: "t \<in> set st \<longleftrightarrow> is_strength ?s" and w: "t \<in> set wk \<longleftrightarrow> is_weakness ?s"
    using mem by (auto simp: sets)
  show ?thesis
    using assms(3) by (auto simp: r s w is_strength_def is_weakness_def topic_accuracy_def)
qed

theorem finish_test_strengths_weaknesses_witness:
  "\<exists>r tm'. finish_test answered_tests 7 = (Some r, tm') \<and>
      ''Reading'' \<notin> set (tr_strengths r) \<and> ''Reading'' \<notin> set (tr_weaknesses r)"
proof -
  obtain r tm' where f: "finish_test answered_tests 7 = (Some r, tm')"
    by (simp add: finish_test_def answered_tests_state Let_def)
  have tt: "topic_total [reading_entry 1 ''a'' ''a'', reading_entry 2 ''c'' ''b'',
                      reading_entry 3 ''c'' ''c''] ''Reading'' = 3"
    and tc: "topic_correct [reading_entry 1 ''a'' ''a'', reading_entry 2 ''c'' ''b'',
                      reading_entry 3 ''c'' ''c''] ''Reading'' = 2"
    by (simp_all add: topic_total_def topic_correct_def reading_entry_def)
  have "''Reading'' \<notin> set (tr_strengths r) \<and> ''Reading'' \<notin> set (tr_weaknesses r)"
    using finish_test_strengths_weaknesses [OF answered_tests_state f, of "''Reading''"]
    by (simp add: tt tc topic_accuracy_def)
  with f show ?thesis by blast
qed

subsection \<open>No test to finish\<close>

text \<open>
  Claim C10. Without a test for the user, \<open>finish_test\<close> returns \<open>None\<close> and changes
  nothing; the \<open>test_continue\<close> branch of \<open>handle_test_actions\<close> hands that \<open>None\<close>
  to \<open>show_test_results\<close> as it is, after announcing the results, and the rendering
  raises \<open>TypeError\<close>, which the error decorator swallows.
\<close>

theorem finish_test_none:
  "active_tests tm u = None \<Longrightarrow>
   finish_test tm u = (None, tm) \<and>
   handle_test_actions tm u ''test_continue''
     = (after_replies [Summarising] (show_test_results None), tm) \<and>
   after_replies [Summarising] (show_test_results None) = ([Summarising], Some TypeError)"
  by (simp add: finish_test_def handle_test_actions_def get_current_question_def
        show_test_results_def after_replies_def)

theorem finish_test_none_witness:
  "finish_test no_tests 7 = (None, no_tests) \<and>
   handle_test_actions no_tests 7 ''test_continue'' = (([Summarising], Some TypeError), no_tests)"
proof -
  have "active_tests no_tests 7 = None" by (simp add: no_tests_def)
  from finish_test_none [OF this] show ?thesis by simp
qed

section \<open>Properties of the completion gate\<close>

lemma bodies_keep_users:
  "bot_users (snd (vocabulary_body a new_uuid response s uid)) = bot_users s"
  "bot_users (snd (grammar_body a new_uuid response s uid)) = bot_users s"
  by (simp_all add: vocabulary_body_def grammar_body_def Let_def split: prod.splits)

lemma call_users:
  "bot_users (snd (call (vocabulary_body a new_uuid response) s uid)) = bot_users s"
  "bot_users (snd (call (grammar_body a new_uuid response) s uid)) = bot_users s"
  using bodies_keep_users [of a new_uuid response s uid]
  by (auto simp: call_def split: prod.splits)

text \<open>The flag is set after \<open>mark_test_completed\<close> exactly when the write succeeded.\<close>

lemma has_completed_after_mark:
  "\<not> has_completed_test files uid \<Longrightarrow> get_user files uid = Inr usr \<Longrightarrow> u_user_id usr = uid \<Longrightarrow>
   has_completed_test (snd (mark_test_completed files uid w)) uid \<longleftrightarrow> w = Written"
  by (cases w)
     (auto simp: mark_test_completed_def has_completed_test_def save_user_def get_user_def
        new_user_def)

text \<open>A user with a fixed test in progress is stopped when the prompt is sent, whatever
  the record and the results file hold.\<close>

lemma gate_in_test:
  "active_tests (bot_tests s) uid \<noteq> None \<Longrightarrow> sent 0 \<Longrightarrow>
   require_test_completion sent w func s uid = (Inl FinishCurrentTestFirst, s)"
  by (simp add: require_test_completion_def)

lemma gate_redirect:
  "\<not> has_completed_test (bot_users s) uid \<Longrightarrow> bot_test_files s uid = None \<Longrightarrow> sent 0 \<Longrightarrow>
   require_test_completion sent w func s uid =
     (Inl (if active_tests (bot_tests s) uid \<noteq> None then FinishCurrentTestFirst
           else TakeDiagnosticTestFirst), s)"
  by (simp add: require_test_completion_def)

lemma gate_unsent:
  "\<not> has_completed_test (bot_users s) uid \<Longrightarrow> bot_test_files s uid = None \<Longrightarrow>
   active_tests (bot_tests s) uid = None \<Longrightarrow> \<not> sent 0 \<Longrightarrow>
   require_test_completion sent w func s uid = call func s uid"
  by (simp add: require_test_completion_def)

lemma gate_heal:
  "\<not> has_completed_test (bot_users s) uid \<Longrightarrow> active_tests (bot_tests s) uid = None \<Longrightarrow>
   bot_test_files s uid = Some (Loaded v) \<Longrightarrow> nonempty_results v \<Longrightarrow>
   require_test_completion sent w func s uid =
     call func (s\<lparr>bot_users := snd (mark_test_completed (bot_users s) uid w)\<rparr>) uid"
  by (auto simp: require_test_completion_def nonempty_results_def Let_def
           split: option.splits)

text \<open>
  Claim C5, as the code has it. Take a user whose record says the test is not
  completed.
  \<^item> Without a results file, both exercise commands are stopped when the prompt is
    sent: the state is unchanged and the user is told to take the diagnostic test
    or, with a fixed test in progress, to finish it.
  \<^item> Without a results file and without a test in progress, when sending the prompt
    raises, the command runs all the same.
  \<^item> With a non-empty results file, a readable record and no fixed test in
    progress, \<open>mark_test_completed\<close> runs first and the command then runs on its
    state; the flag is set afterwards exactly when the write of the record
    succeeded.
  \<^item> With a fixed test in progress, both commands are stopped when the prompt is
    sent, whatever the results file holds, and nothing is written.
\<close>

theorem gate_blocks_or_heals:
  assumes "\<not> has_completed_test (bot_users s) uid"
  shows "(bot_test_files s uid = None \<and> env_reply_returns env 0 \<longrightarrow>
            vocabulary_command env s uid =
              (Inl (if active_tests (bot_tests s) uid \<noteq> None then FinishCurrentTestFirst
                    else TakeDiagnosticTestFirst), s) \<and>
            grammar_command env s uid =
              (Inl (if active_tests (bot_tests s) uid \<noteq> None then FinishCurrentTestFirst
                    else TakeDiagnosticTestFirst), s)) \<and>
         (bot_test_files s uid = None \<and> active_tests (bot_tests s) uid = None \<and>
          \<not> env_reply_returns env 0 \<longrightarrow>
            vocabulary_command env s uid =
              call (vocabulary_body (env_answer_text env) (env_uuid env) (env_response env)) s uid \<and>
            grammar_command env s uid =
              call (grammar_body (env_answer_text env) (env_uuid env) (env_response env)) s uid) \<and>
         (\<forall>v usr s1. bot_test_files s uid = Some (Loaded v) \<and> nonempty_results v \<and>
                  active_tests (bot_tests s) uid = None \<and>
                  get_user (bot_users s) uid = Inr usr \<and> u_user_id usr = uid \<and>
                  s1 = s\<lparr>bot_users :=
                          snd (mark_test_completed (bot_users s) uid (env_user_write env))\<rparr> \<longrightarrow>
            (has_completed_test (bot_users s1) uid \<longleftrightarrow> env_user_write env = Written) \<and>
            vocabulary_command env s uid =
              call (vocabulary_body (env_answer_text env) (env_uuid env) (env_response env)) s1 uid \<and>
            grammar_command env s uid =
              call (grammar_body (env_answer_text env) (env_uuid env) (env_response env)) s1 uid \<and>
            (has_completed_test (bot_users (snd (vocabulary_command env s uid))) uid
               \<longleftrightarrow> env_user_write env = Written) \<and>
            (has_completed_test (bot_users (snd (grammar_command env s uid))) uid
               \<longleftrightarrow> env_user_write env = Written)) \<and>
         (active_tests (bot_tests s) uid \<noteq> None \<and> env_reply_returns env 0 \<longrightarrow>
            vocabulary_command env s uid = (Inl FinishCurrentTestFirst, s) \<and>
            grammar_command env s uid = (Inl FinishCurrentTestFirst, s))"
proof (intro conjI allI impI)
  assume n: "bot_test_files s uid = None \<and> env_reply_returns env 0"
  show "vocabulary_command env s uid =
              (Inl (if active_tests (bot_tests s) uid \<noteq> None then FinishCurrentTestFirst
                    else TakeDiagnosticTestFirst), s)"
    unfolding vocabulary_command_def using n by (intro gate_redirect [OF assms]) simp_all
  show "grammar_command env s uid =
              (Inl (if active_tests (bot_tests s) uid \<noteq> None then FinishCurrentTestFirst
                    else TakeDiagnosticTestFirst), s)"
    unfolding grammar_command_def using n by (intro gate_redirect [OF assms]) simp_all
next
  assume n: "bot_test_files s uid = None \<and> active_tests (bot_tests s) uid = None \<and>
             \<not> env_reply_returns env 0"
  show "vocabulary_command env s uid =
          call (vocabulary_body (env_answer_text env) (env_uuid env) (env_response env)) s uid"
    unfolding vocabulary_command_def using n by (intro gate_unsent [OF assms]) simp_all
  show "grammar_command env s uid =
          call (grammar_body (env_answer_text env) (env_uuid env) (env_response env)) s uid"
    unfolding grammar_command_def using n by (intro gate_unsent [OF assms]) simp_all
next
  fix v usr s1
  assume a: "bot_test_files s uid = Some (Loaded v) \<and> nonempty_results v \<and>
                  active_tests (bot_tests s) uid = None \<and>
                  get_user (bot_users s) uid = Inr usr \<and> u_user_id usr = uid \<and>
                  s1 = s\<lparr>bot_users :=
                          snd (mark_test_completed (bot_users s) uid (env_user_write env))\<rparr>"
  then have f: "bot_test_files s uid = Some (Loaded v)" and ne: "nonempty_results v"
    and nt: "active_tests (bot_tests s) uid = None"
    and u: "get_user (bot_users s) uid = Inr usr" "u_user_id usr = uid"
    and s1: "s1 = s\<lparr>bot_users :=
                      snd (mark_test_completed (bot_users s) uid (env_user_write env))\<rparr>"
    by simp_all
  show h: "has_completed_test (bot_users s1) uid \<longleftrightarrow> env_user_write env = Written"
    using has_completed_after_mark [OF assms u] by (simp add: s1)
  show v: "vocabulary_command env s uid =
          call (vocabulary_body (env_answer_text env) (env_uuid env) (env_response env)) s1 uid"
    unfolding vocabulary_command_def s1 by (rule gate_heal [OF assms nt f ne])
  show g: "grammar_command env s uid =
          call (grammar_body (env_answer_text env) (env_uuid env) (env_response env)) s1 uid"
    unfolding grammar_command_def s1 by (rule gate_heal [OF assms nt f ne])
  show "has_completed_test (bot_users (snd (vocabulary_command env s uid))) uid
          \<longleftrightarrow> env_user_write env = Written"
    using h by (simp add: v call_users)
  show "has_completed_test (bot_users (snd (grammar_command env s uid))) uid
          \<longleftrightarrow> env_user_write env = Written"
    using h by (simp add: g call_users)
next
  assume t: "active_tests (bot_tests s) uid \<noteq> None \<and> env_reply_returns env 0"
  show "vocabulary_command env s uid = (Inl FinishCurrentTestFirst, s)"
    unfolding vocabulary_command_def using t by (intro gate_in_test) simp_all
  show "grammar_command env s uid = (Inl FinishCurrentTestFirst, s)"
    unfolding grammar_command_def using t by (intro gate_in_test) simp_all
qed

lemma gate_state_fields:
  "bot_users (gate_state t f) = Map.empty" "bot_test_files (gate_state t f) 7 = f"
  "bot_tests (gate_state True f) = sample_tests" "bot_tests (gate_state False f) = no_tests"
  "bot_exercises (gate_state t f) = new_exercise_manager"
  by (simp_all add: gate_state_def)

lemma not_completed_empty: "\<not> has_completed_test Map.empty uid"
  by (simp add: has_completed_test_def get_user_def new_user_def)

lemma sample_env_fields:
  "env_answer_text (sample_env\<lparr>env_reply_returns := r, env_user_write := w\<rparr>) = ascii_answer_text"
  "env_reply_returns (sample_env\<lparr>env_reply_returns := r, env_user_write := w\<rparr>) = r"
  "env_user_write (sample_env\<lparr>env_reply_returns := r, env_user_write := w\<rparr>) = w"
  "env_uuid (sample_env\<lparr>env_reply_returns := r, env_user_write := w\<rparr>) = sample_uuid"
  "env_response (sample_env\<lparr>env_reply_returns := r, env_user_write := w\<rparr>) = NoJson"
  "env_answer_text sample_env = ascii_answer_text" "env_reply_returns sample_env = (\<lambda>n. True)"
  "env_user_write sample_env = Written" "env_uuid sample_env = sample_uuid"
  "env_response sample_env = NoJson"
  by (simp_all add: sample_env_def)

text \<open>On a state without exercises the grammar command, once it runs, shows the first
  of the five fallback exercises.\<close>

lemma grammar_body_first:
  "bot_exercises s = new_exercise_manager \<Longrightarrow>
   \<exists>e. fst (call (grammar_body ascii_answer_text sample_uuid NoJson) s 7)
          = Inr (FirstExercise e 5)"
  by (simp add: call_def grammar_body_def start_and_show_def
        is_exercise_session_active_def new_exercise_manager_def start_exercise_session_def
        generate_exercises_def get_fallback_exercises_def grammar_fallback_def Let_def
        split: prod.splits)

text \<open>
  User 7 has no record. Without a results file the vocabulary command is stopped
  with the prompt; when the prompt cannot be sent, the grammar command runs. With a
  results file holding one result the grammar command runs, and the flag is set
  afterwards when the write succeeds and not set when it fails. With a test in
  progress the command is stopped although the file holds a result.
\<close>

theorem gate_blocks_or_heals_witness:
  "vocabulary_command sample_env (gate_state False None) 7
     = (Inl TakeDiagnosticTestFirst, gate_state False None) \<and>
   (\<exists>e. fst (grammar_command (sample_env\<lparr>env_reply_returns := (\<lambda>n. False), env_user_write := Written\<rparr>)
               (gate_state False None) 7) = Inr (FirstExercise e 5)) \<and>
   (\<exists>e. fst (grammar_command sample_env (gate_state False (Some (Loaded (JArr [JObj []])))) 7)
          = Inr (FirstExercise e 5)) \<and>
   has_completed_test
     (bot_users (snd (grammar_command sample_env
                        (gate_state False (Some (Loaded (JArr [JObj []])))) 7))) 7 \<and>
   \<not> has_completed_test
     (bot_users (snd (grammar_command
                        (sample_env\<lparr>env_reply_returns := (\<lambda>n. True), env_user_write := DumpFailed\<rparr>)
                        (gate_state False (Some (Loaded (JArr [JObj []])))) 7))) 7 \<and>
   grammar_command sample_env (gate_state True (Some (Loaded (JArr [JObj []])))) 7
     = (Inl FinishCurrentTestFirst, gate_state True (Some (Loaded (JArr [JObj []]))))"
proof -
  let ?s = "gate_state False (Some (Loaded (JArr [JObj []])))"
  let ?unsent = "sample_env\<lparr>env_reply_returns := (\<lambda>n. False), env_user_write := Written\<rparr>"
  let ?failed = "sample_env\<lparr>env_reply_returns := (\<lambda>n. True), env_user_write := DumpFailed\<rparr>"
  have nc: "\<And>t f. \<not> has_completed_test (bot_users (gate_state t f)) 7"
    by (simp add: gate_state_fields not_completed_empty)
  have 1: "vocabulary_command sample_env (gate_state False None) 7
     = (Inl TakeDiagnosticTestFirst, gate_state False None)"
    using gate_blocks_or_heals [OF nc, of False None sample_env]
    by (simp add: gate_state_fields no_tests_def sample_env_fields)
  have "grammar_command ?unsent (gate_state False None) 7 =
          call (grammar_body ascii_answer_text sample_uuid NoJson) (gate_state False None) 7"
    using gate_blocks_or_heals [OF nc, of False None ?unsent]
    by (simp add: gate_state_fields no_tests_def sample_env_fields)
  then have 2: "\<exists>e. fst (grammar_command ?unsent (gate_state False None) 7)
                      = Inr (FirstExercise e 5)"
    using grammar_body_first [of "gate_state False None"] by (simp add: gate_state_fields)
  have pre: "\<And>env. bot_test_files ?s 7 = Some (Loaded (JArr [JObj []])) \<and>
             nonempty_results (JArr [JObj []]) \<and> active_tests (bot_tests ?s) 7 = None \<and>
             get_user (bot_users ?s) 7 = Inr (new_user 7) \<and> u_user_id (new_user 7) = 7 \<and>
             ?s\<lparr>bot_users := snd (mark_test_completed (bot_users ?s) 7 (env_user_write env))\<rparr>
               = ?s\<lparr>bot_users := snd (mark_test_completed (bot_users ?s) 7 (env_user_write env))\<rparr>"
    by (simp add: gate_state_fields no_tests_def nonempty_results_def get_user_def new_user_def)
  note h = gate_blocks_or_heals [OF nc, of False "Some (Loaded (JArr [JObj []]))" sample_env,
             THEN conjunct2, THEN conjunct2, THEN conjunct1, rule_format,
             OF pre [of sample_env]]
  have g: "grammar_command sample_env ?s 7 =
      call (grammar_body ascii_answer_text sample_uuid NoJson)
        (?s\<lparr>bot_users := snd (mark_test_completed (bot_users ?s) 7 Written)\<rparr>) 7"
    using h by (simp add: sample_env_fields)
  have 3: "\<exists>e. fst (grammar_command sample_env ?s 7) = Inr (FirstExercise e 5)"
    using grammar_body_first
            [of "?s\<lparr>bot_users := snd (mark_test_completed (bot_users ?s) 7 Written)\<rparr>"]
    by (simp add: g gate_state_fields)
  have 4: "has_completed_test (bot_users (snd (grammar_command sample_env ?s 7))) 7"
    using h sample_env_fields(8) by blast
  note k = gate_blocks_or_heals [OF nc, of False "Some (Loaded (JArr [JObj []]))" ?failed,
             THEN conjunct2, THEN conjunct2, THEN conjunct1, rule_format,
             OF pre [of ?failed]]
  from k have "has_completed_test (bot_users (snd (grammar_command ?failed ?s 7))) 7
                 \<longleftrightarrow> env_user_write ?failed = Written"
    by blast
  then have 5: "\<not> has_completed_test (bot_users (snd (grammar_command ?failed ?s 7))) 7"
    by (simp add: sample_env_fields)
  have 6: "grammar_command sample_env (gate_state True (Some (Loaded (JArr [JObj []])))) 7
     = (Inl FinishCurrentTestFirst, gate_state True (Some (Loaded (JArr [JObj []]))))"
    using gate_blocks_or_heals [OF nc, of True "Some (Loaded (JArr [JObj []]))" sample_env]
    by (simp add: gate_state_fields sample_tests_session sample_env_fields)
  show ?thesis using 1 2 3 4 5 6 by blast
qed

text \<open>
  The second half of the claim as stated fails for a user with a fixed test in
  progress: the gate checks that first, so the user is stopped and the flag stays
  unset, whatever the results file holds.
\<close>

theorem gate_counterexample:
  "bot_test_files (gate_state True (Some (Loaded (JArr [JObj []])))) 7
     = Some (Loaded (JArr [JObj []])) \<and>
   \<not> has_completed_test (bot_users (gate_state True (Some (Loaded (JArr [JObj []]))))) 7 \<and>
   vocabulary_command sample_env (gate_state True (Some (Loaded (JArr [JObj []])))) 7
     = (Inl FinishCurrentTestFirst, gate_state True (Some (Loaded (JArr [JObj []])))) \<and>
   grammar_command sample_env (gate_state True (Some (Loaded (JArr [JObj []])))) 7
     = (Inl FinishCurrentTestFirst, gate_state True (Some (Loaded (JArr [JObj []]))))"
  by (simp add: gate_state_fields not_completed_empty vocabulary_command_def
        grammar_command_def require_test_completion_def sample_tests_session sample_env_fields)

end
